theory Spec2Isabelle
  imports Main "HOL-Library.Word"
begin

section \<open>Bytes, C strings and the run of a process\<close>

text \<open>
  A C \<open>char\<close> is a \<^typ>\<open>char\<close>, an array of them a \<^typ>\<open>char list\<close> whose length is the
  capacity of the array. The arguments in \<open>argv\<close> are given as the characters of each
  argument, without the terminator.
\<close>

abbreviation NUL :: char where "NUL \<equiv> CHR 0x00"
abbreviation NL :: char where "NL \<equiv> CHR 0x0A"
abbreviation QUOTE :: char where "QUOTE \<equiv> CHR 0x27"

definition BUFFER_SIZE :: nat where "BUFFER_SIZE = 100"
definition BACKLOG :: nat where "BACKLOG = 5"
definition RESPONSE :: string where "RESPONSE = ''Server acknowledged your message!''"

text \<open>
  How a \<open>send\<close> ends: it returns the number of bytes taken or \<open>-1\<close>, or it raises
  \<open>SIGPIPE\<close> because the peer has reset the connection.
\<close>

datatype send_result = Returns int | Sigpipe

text \<open>
  What a process does that can be seen from outside: what it prints and the system calls
  it makes, each with the value the call returned.
\<close>

datatype event =
    Stdout string
  | Stderr string
  | Perror string
  | Socket int
  | Setsockopt int int
  | Bind int int int
  | Listen int nat int
  | Accept int int
  | Connect int string int int
  | Send int "char list" send_result
  | Recv int nat int
  | Close int

text \<open>
  The operating system, as far as one run meets it: the bytes on standard input, the
  bytes an uninitialised local array happens to hold, the return value of each call, and
  the bytes the connection has for the one \<open>recv\<close> (\<open>None\<close>: the call fails, the empty
  list: the peer has closed).
\<close>

record os =
  stdin_bytes :: "char list"
  stack_bytes :: "nat \<Rightarrow> char"
  socket_ret :: int
  setsockopt_ret :: int
  bind_ret :: int
  listen_ret :: int
  accept_ret :: int
  peer_addr :: string
  peer_port :: nat
  connect_ret :: int
  send_ret :: send_result
  recv_data :: "char list option"

text \<open>
  A function returns, or ends the process with \<open>exit\<close>, or the process is killed by a
  signal inside it and runs no further, or it leaves the behaviour the C standard defines
  (a write or read outside an array).
\<close>

datatype 'a outcome = Return 'a | Exit int | Killed | Undefined

type_synonym 'a run = "event list \<times> 'a outcome"

definition seq :: "'a run \<Rightarrow> ('a \<Rightarrow> 'b run) \<Rightarrow> 'b run" where
  "seq m f =
     (case m of
        (t, Return a) \<Rightarrow> (case f a of (t', r) \<Rightarrow> (t @ t', r))
      | (t, Exit c) \<Rightarrow> (t, Exit c)
      | (t, Killed) \<Rightarrow> (t, Killed)
      | (t, Undefined) \<Rightarrow> (t, Undefined))"

definition ret :: "'a \<Rightarrow> 'a run" where
  "ret v = ([], Return v)"

definition emit :: "event list \<Rightarrow> unit run" where
  "emit evs = (evs, Return ())"

definition exit_with :: "event list \<Rightarrow> int \<Rightarrow> 'a run" where
  "exit_with evs c = (evs, Exit c)"

text \<open>An array declared without initialiser holds whatever the stack holds.\<close>

definition uninit :: "nat \<Rightarrow> (nat \<Rightarrow> char) \<Rightarrow> char list" where
  "uninit n g = map g [0..<n]"

text \<open>\<open>a[i] = v\<close>: outside the array the behaviour is undefined.\<close>

definition store :: "char list \<Rightarrow> nat \<Rightarrow> char \<Rightarrow> (char list) run" where
  "store a i v = (if i < length a then ret (a[i := v]) else ([], Undefined))"

text \<open>The string an array holds: the characters before the first terminator.\<close>

definition c_str :: "char list \<Rightarrow> string" where
  "c_str a = takeWhile (\<lambda>c. c \<noteq> NUL) a"

text \<open>\<open>strlen\<close> reads up to the terminator; an array without one is read past its end.\<close>

definition strlen :: "char list \<Rightarrow> nat run" where
  "strlen a = (if NUL \<in> set a then ret (length (c_str a)) else ([], Undefined))"

text \<open>\<open>strcspn(a, "\n")\<close>: the index of the first newline or terminator.\<close>

definition strcspn_nl :: "char list \<Rightarrow> nat run" where
  "strcspn_nl a =
     (if NUL \<in> set a \<or> NL \<in> set a
      then ret (length (takeWhile (\<lambda>c. c \<noteq> NUL \<and> c \<noteq> NL) a))
      else ([], Undefined))"

text \<open>\<open>strcpy(dst, src)\<close> writes the characters of \<open>src\<close> and the terminator.\<close>

definition strcpy :: "char list \<Rightarrow> string \<Rightarrow> (char list) run" where
  "strcpy dst src =
     (if length src + 1 \<le> length dst
      then ret (src @ NUL # drop (length src + 1) dst)
      else ([], Undefined))"

text \<open>\<open>memset(a, 0, n)\<close>.\<close>

definition memset0 :: "char list \<Rightarrow> int \<Rightarrow> (char list) run" where
  "memset0 a n =
     (if 0 \<le> n \<and> nat n \<le> length a
      then ret (replicate (nat n) NUL @ drop (nat n) a)
      else ([], Undefined))"

text \<open>
  \<open>fgets(a, n, stdin)\<close> reads at most \<open>n - 1\<close> characters and stops after a newline.
  With nothing to read it returns \<open>NULL\<close> and leaves the array as it was.
\<close>

fun fgets_chars :: "nat \<Rightarrow> char list \<Rightarrow> char list" where
  "fgets_chars 0 inp = []"
| "fgets_chars (Suc n) [] = []"
| "fgets_chars (Suc n) (c # cs) = (if c = NL then [c] else c # fgets_chars n cs)"

definition fgets :: "char list \<Rightarrow> nat \<Rightarrow> char list \<Rightarrow> char list" where
  "fgets a n inp =
     (let r = fgets_chars (n - 1) inp
      in if r = [] then a else r @ NUL # drop (length r + 1) a)"

subsection \<open>Numbers in text\<close>

definition isspace :: "char \<Rightarrow> bool" where
  "isspace c = (c \<in> set [CHR 0x20, CHR 0x09, CHR 0x0A, CHR 0x0B, CHR 0x0C, CHR 0x0D])"

definition isdigit :: "char \<Rightarrow> bool" where
  "isdigit c = (c \<in> set ''0123456789'')"

definition digit_val :: "char \<Rightarrow> int" where
  "digit_val c = of_char c - 48"

text \<open>
  The subject sequence of \<open>strtol\<close> in base 10: white space, an optional sign, the
  longest run of digits. \<open>None\<close> when there is no digit.
\<close>

definition decimal_prefix :: "string \<Rightarrow> int option" where
  "decimal_prefix s =
     (let t = dropWhile isspace s;
          neg = (t \<noteq> [] \<and> hd t = CHR ''-'');
          u = (if t \<noteq> [] \<and> (hd t = CHR ''-'' \<or> hd t = CHR ''+'') then tl t else t);
          ds = takeWhile isdigit u;
          v = foldl (\<lambda>a d. 10 * a + digit_val d) 0 ds
      in if ds = [] then None else Some (if neg then - v else v))"

definition LONG_MAX :: int where "LONG_MAX = 2 ^ 63 - 1"
definition LONG_MIN :: int where "LONG_MIN = - (2 ^ 63)"

text \<open>
  \<open>strtol(s, NULL, 10)\<close> with a 64-bit \<open>long\<close>: zero when no conversion is made, the
  nearest bound when the value is out of range.
\<close>

definition strtol :: "string \<Rightarrow> int" where
  "strtol s =
     (case decimal_prefix s of
        None \<Rightarrow> 0
      | Some v \<Rightarrow> max LONG_MIN (min LONG_MAX v))"

text \<open>Storing a \<open>long\<close> in a 32-bit \<open>int\<close> keeps the low 32 bits.\<close>

definition int_of_long :: "int \<Rightarrow> int" where
  "int_of_long v = sint (word_of_int v :: 32 word)"

text \<open>\<open>atoi(s)\<close> is \<open>(int) strtol(s, NULL, 10)\<close>.\<close>

definition atoi :: "string \<Rightarrow> int" where
  "atoi s = int_of_long (strtol s)"

text \<open>\<open>%d\<close> and \<open>%lu\<close>.\<close>

fun show_nat :: "nat \<Rightarrow> string" where
  "show_nat n =
     (if n < 10 then [''0123456789'' ! n]
      else show_nat (n div 10) @ [''0123456789'' ! (n mod 10)])"

declare show_nat.simps [simp del]

definition show_int :: "int \<Rightarrow> string" where
  "show_int i = (if i < 0 then CHR ''-'' # show_nat (nat (- i)) else show_nat (nat i))"

subsection \<open>The socket calls\<close>

text \<open>
  \<open>send(sd, a, n, 0)\<close>. Both programs pass no flags and leave \<open>SIGPIPE\<close> at its default,
  so when the signal is raised the process is killed inside the call. Otherwise the call
  returns.
\<close>

definition sys_send :: "int \<Rightarrow> char list \<Rightarrow> os \<Rightarrow> int run" where
  "sys_send sd bytes env =
     (case send_ret env of
        Returns rc \<Rightarrow> ([Send sd bytes (Returns rc)], Return rc)
      | Sigpipe \<Rightarrow> ([Send sd bytes Sigpipe], Killed))"

text \<open>
  \<open>recv(sd, a, n, 0)\<close> writes at most \<open>n\<close> of the bytes the connection has to the front of
  the array and returns their number, or fails with \<open>-1\<close>.
\<close>

definition sys_recv :: "int \<Rightarrow> char list \<Rightarrow> int \<Rightarrow> os \<Rightarrow> (int \<times> char list) run" where
  "sys_recv sd a n env =
     (if n < 0 \<or> int (length a) < n then ([], Undefined)
      else case recv_data env of
             None \<Rightarrow> ([Recv sd (nat n) (- 1)], Return (- 1, a))
           | Some d \<Rightarrow>
               (let got = take (nat n) d
                in ([Recv sd (nat n) (int (length got))],
                    Return (int (length got), got @ drop (length got) a))))"

section \<open>The client\<close>

definition invalid_port_msg :: "string \<Rightarrow> string" where
  "invalid_port_msg a =
     ''Error: Invalid port number '' @ [QUOTE] @ a @ [QUOTE]
       @ ''. Must be between 1 and 65535.'' @ [NL]"

definition client_parse_arguments :: "string list \<Rightarrow> char list \<Rightarrow> (char list \<times> int) run" where
  "client_parse_arguments argv serverIP =
     (if length argv < 3
      then exit_with [Stderr (''usage is: client <ipaddr> <portnumber>'' @ [NL])] 1
      else seq (strcpy serverIP (argv ! 1)) (\<lambda>serverIP'.
           let port = int_of_long (strtol (argv ! 2))
           in if port \<le> 0 \<or> port > 65535
              then exit_with [Stderr (invalid_port_msg (argv ! 2))] 1
              else ret (serverIP', port)))"

definition create_client_socket :: "char list \<Rightarrow> int \<Rightarrow> os \<Rightarrow> int run" where
  "create_client_socket serverIP port env =
     (let sd = socket_ret env
      in seq (emit [Socket sd]) (\<lambda>_.
         if sd < 0 then exit_with [Perror ''Error: socket() failed''] 1
         else let rc = connect_ret env
              in seq (emit [Connect sd (c_str serverIP) port rc]) (\<lambda>_.
                 if rc < 0
                 then exit_with [Perror ''Error: connect() failed'', Close sd] 1
                 else seq (emit [Stdout (''Connected to server at '' @ c_str serverIP
                                          @ '':'' @ show_int port @ [NL])]) (\<lambda>_.
                      ret sd))))"

definition send_message :: "int \<Rightarrow> os \<Rightarrow> int run" where
  "send_message sd env =
     (let buffer0 = uninit BUFFER_SIZE (stack_bytes env)
      in seq (emit [Stdout ''Enter a message to send: '']) (\<lambda>_.
         let buffer1 = fgets buffer0 BUFFER_SIZE (stdin_bytes env)
         in seq (strcspn_nl buffer1) (\<lambda>i.
            seq (store buffer1 i NUL) (\<lambda>buffer.
            seq (emit [Stdout (''You are sending '' @ [QUOTE] @ c_str buffer @ [QUOTE, NL])]) (\<lambda>_.
            seq (strlen buffer) (\<lambda>len.
            seq (emit [Stdout (''The length of the string is '' @ show_nat len
                                @ '' bytes'' @ [NL])]) (\<lambda>_.
            seq (sys_send sd (take (len + 1) buffer) env) (\<lambda>rc.
            if rc < 0
            then seq (emit [Perror ''Error: send() failed'']) (\<lambda>_. ret (- 1))
            else seq (emit [Stdout (''Sent '' @ show_int rc @ '' bytes to the server'' @ [NL])])
                   (\<lambda>_. ret 0)))))))))"

text \<open>
  Beside the value the C function returns, the model gives the last values of its
  locals \<open>rc\<close> and \<open>buffer\<close>.
\<close>

definition receive_response :: "int \<Rightarrow> os \<Rightarrow> (int \<times> int \<times> char list) run" where
  "receive_response sd env =
     (let buffer0 = uninit BUFFER_SIZE (stack_bytes env)
      in seq (memset0 buffer0 (int BUFFER_SIZE)) (\<lambda>buffer1.
         seq (sys_recv sd buffer1 (int BUFFER_SIZE - 1) env) (\<lambda>(rc, buffer2).
         if rc < 0
         then seq (emit [Perror ''Error: recv() failed'']) (\<lambda>_. ret (- 1, rc, buffer2))
         else if rc = 0
         then seq (emit [Stdout (''Server closed the connection without responding.'' @ [NL])])
                (\<lambda>_. ret (- 1, rc, buffer2))
         else seq (store buffer2 (nat rc) NUL) (\<lambda>buffer.
              seq (emit [Stdout (''Server response: '' @ c_str buffer @ [NL])]) (\<lambda>_.
              ret (0, rc, buffer))))))"

definition client_cleanup :: "int \<Rightarrow> unit run" where
  "client_cleanup sd =
     seq (if sd \<ge> 0 then emit [Close sd] else ret ()) (\<lambda>_.
     emit [Stdout (''Connection closed.'' @ [NL])])"

definition client_main :: "string list \<Rightarrow> os \<Rightarrow> int run" where
  "client_main argv env =
     seq (client_parse_arguments argv (uninit 29 (stack_bytes env))) (\<lambda>(serverIP, port).
     seq (create_client_socket serverIP port env) (\<lambda>sd.
     seq (send_message sd env) (\<lambda>sent.
     seq (if sent = 0 then seq (receive_response sd env) (\<lambda>_. ret ()) else ret ()) (\<lambda>_.
     seq (client_cleanup sd) (\<lambda>_.
     ret 0)))))"

section \<open>The server\<close>

definition server_parse_arguments :: "string list \<Rightarrow> int run" where
  "server_parse_arguments argv =
     (if length argv < 2
      then exit_with [Stderr (''usage is: server <portnumber>'' @ [NL])] 1
      else let port = atoi (argv ! 1)
           in if port \<le> 0 \<or> port > 65535
              then exit_with [Stderr (invalid_port_msg (argv ! 1))] 1
              else ret port)"

definition create_server_socket :: "int \<Rightarrow> os \<Rightarrow> int run" where
  "create_server_socket port env =
     (let sd = socket_ret env
      in seq (emit [Socket sd]) (\<lambda>_.
         if sd < 0 then exit_with [Perror ''Error: socket() failed''] 1
         else seq (emit [Setsockopt sd (setsockopt_ret env)]) (\<lambda>_.
         if setsockopt_ret env < 0
         then exit_with [Perror ''Error: setsockopt() failed'', Close sd] 1
         else seq (emit [Bind sd port (bind_ret env)]) (\<lambda>_.
         if bind_ret env < 0
         then exit_with [Perror ''Error: bind() failed'', Close sd] 1
         else seq (emit [Listen sd BACKLOG (listen_ret env)]) (\<lambda>_.
         if listen_ret env < 0
         then exit_with [Perror ''Error: listen() failed'', Close sd] 1
         else seq (emit [Stdout (''Server is listening on port '' @ show_int port
                                  @ ''...'' @ [NL])]) (\<lambda>_.
              ret sd))))))"

definition accept_client :: "int \<Rightarrow> os \<Rightarrow> int run" where
  "accept_client server_sd env =
     seq (emit [Stdout (''Waiting for a client to connect...'' @ [NL])]) (\<lambda>_.
     let new_sd = accept_ret env
     in seq (emit [Accept server_sd new_sd]) (\<lambda>_.
        if new_sd < 0
        then exit_with [Perror ''Error: accept() failed'', Close server_sd] 1
        else seq (emit [Stdout (''Client connected successfully from '' @ peer_addr env
                                 @ '':'' @ show_nat (peer_port env) @ [NL])]) (\<lambda>_.
             ret new_sd)))"

text \<open>The model returns the value of the C function and the caller's array.\<close>

definition receive_message :: "int \<Rightarrow> char list \<Rightarrow> int \<Rightarrow> os \<Rightarrow> (int \<times> char list) run" where
  "receive_message client_sd buffer buf_size env =
     seq (memset0 buffer buf_size) (\<lambda>buffer1.
     seq (sys_recv client_sd buffer1 (buf_size - 1) env) (\<lambda>(rc, buffer2).
     if rc < 0
     then seq (emit [Perror ''Error: recv() failed'']) (\<lambda>_. ret (- 1, buffer2))
     else if rc = 0
     then seq (emit [Stdout (''Client disconnected before sending data.'' @ [NL])])
            (\<lambda>_. ret (0, buffer2))
     else seq (store buffer2 (nat rc) NUL) (\<lambda>buffer3.
          seq (emit [Stdout (''Received '' @ show_int rc @ '' bytes'' @ [NL]),
                     Stdout (''Message: '' @ c_str buffer3 @ [NL])]) (\<lambda>_.
          ret (rc, buffer3)))))"

definition send_response :: "int \<Rightarrow> os \<Rightarrow> int run" where
  "send_response client_sd env =
     (let response = RESPONSE
      in seq (sys_send client_sd (response @ [NUL]) env) (\<lambda>rc.
         if rc < 0
         then seq (emit [Perror ''Error: send() failed'']) (\<lambda>_. ret (- 1))
         else seq (emit [Stdout (''Response sent: '' @ response @ [NL])]) (\<lambda>_. ret 0)))"

definition server_cleanup :: "int \<Rightarrow> int \<Rightarrow> unit run" where
  "server_cleanup server_sd client_sd =
     seq (if client_sd \<ge> 0 then emit [Close client_sd] else ret ()) (\<lambda>_.
     seq (if server_sd \<ge> 0 then emit [Close server_sd] else ret ()) (\<lambda>_.
     emit [Stdout (''Server shut down. All sockets closed.'' @ [NL])]))"

definition server_main :: "string list \<Rightarrow> os \<Rightarrow> int run" where
  "server_main argv env =
     (let buffer = uninit BUFFER_SIZE (stack_bytes env)
      in seq (server_parse_arguments argv) (\<lambda>port.
         seq (create_server_socket port env) (\<lambda>server_sd.
         seq (accept_client server_sd env) (\<lambda>client_sd.
         seq (receive_message client_sd buffer (int BUFFER_SIZE) env) (\<lambda>(bytes, buffer').
         seq (if bytes > 0 then seq (send_response client_sd env) (\<lambda>_. ret ()) else ret ()) (\<lambda>_.
         seq (server_cleanup server_sd client_sd) (\<lambda>_.
         ret 0)))))))"

section \<open>Reading a run\<close>

fun is_socket_call :: "event \<Rightarrow> bool" where
  "is_socket_call (Stdout s) = False"
| "is_socket_call (Stderr s) = False"
| "is_socket_call (Perror s) = False"
| "is_socket_call e = True"

text \<open>The arrays handed to \<open>send\<close>, each with its descriptor.\<close>

fun sends :: "event list \<Rightarrow> (int \<times> char list) list" where
  "sends [] = []"
| "sends (Send sd bytes rc # t) = (sd, bytes) # sends t"
| "sends (e # t) = sends t"

text \<open>The bytes that went out: of each array the part \<open>send\<close> reported as sent.\<close>

fun wire :: "event list \<Rightarrow> char list" where
  "wire [] = []"
| "wire (Send sd bytes (Returns rc) # t) = take (nat rc) bytes @ wire t"
| "wire (e # t) = wire t"

text \<open>What the first \<open>recv\<close> of a run returned, if there was one.\<close>

fun recv_returned :: "event list \<Rightarrow> int option" where
  "recv_returned [] = None"
| "recv_returned (Recv sd n rc # t) = Some rc"
| "recv_returned (e # t) = recv_returned t"

text \<open>Every \<open>recv\<close> of a run: the number of bytes asked for and the value returned.\<close>

fun recv_calls :: "event list \<Rightarrow> (nat \<times> int) list" where
  "recv_calls [] = []"
| "recv_calls (Recv sd n rc # t) = (n, rc) # recv_calls t"
| "recv_calls (e # t) = recv_calls t"

text \<open>
  The descriptors open after a run that started with \<open>fds\<close> open: \<open>socket\<close> and
  \<open>accept\<close> open the one they return, \<open>close\<close> closes one.
\<close>

fun leaked :: "event list \<Rightarrow> int list \<Rightarrow> int list" where
  "leaked [] fds = fds"
| "leaked (Socket sd # t) fds = leaked t (if sd \<ge> 0 then sd # fds else fds)"
| "leaked (Accept lsd sd # t) fds = leaked t (if sd \<ge> 0 then sd # fds else fds)"
| "leaked (Close sd # t) fds = leaked t (remove1 sd fds)"
| "leaked (e # t) fds = leaked t fds"

text \<open>The port the client ends up with.\<close>

definition client_port :: "string list \<Rightarrow> int" where
  "client_port argv = int_of_long (strtol (argv ! 2))"

text \<open>
  An operating system for the examples: every call succeeds, the operator types
  \<open>hello\<close>, nothing arrives on the connection.
\<close>

definition plain_os :: os where
  "plain_os =
     \<lparr>stdin_bytes = ''hello'' @ [NL], stack_bytes = (\<lambda>_. CHR ''?''),
      socket_ret = 3, setsockopt_ret = 0, bind_ret = 0, listen_ret = 0,
      accept_ret = 4, peer_addr = ''127.0.0.1'', peer_port = 50000,
      connect_ret = 0, send_ret = Returns 0, recv_data = Some []\<rparr>"

definition client_args :: "string list" where
  "client_args = [''./client'', ''127.0.0.1'', ''9000'']"

definition server_args :: "string list" where
  "server_args = [''./server'', ''9000'']"

text \<open>
  The status a process exits with: what \<open>main\<close> returns or \<open>exit\<close> is given. A process
  killed by a signal has none.
\<close>

fun exit_status :: "int outcome \<Rightarrow> int option" where
  "exit_status (Return v) = Some v"
| "exit_status (Exit c) = Some c"
| "exit_status Killed = None"
| "exit_status Undefined = None"

text \<open>
  A port argument the programs turn down: it has no leading number, or its leading
  number fits an \<open>int\<close> and lies outside 1 to 65535.
\<close>

definition no_valid_port :: "string \<Rightarrow> bool" where
  "no_valid_port p =
     (case decimal_prefix p of
        None \<Rightarrow> True
      | Some v \<Rightarrow> - (2 ^ 31) \<le> v \<and> v < 2 ^ 31 \<and> (v < 1 \<or> 65535 < v))"

text \<open>
  The two sides of the exchange of \<open>hello\<close>: each \<open>send\<close> takes all its bytes and each
  side finds on the connection what the other sent.
\<close>

definition hello_client_os :: os where
  "hello_client_os = plain_os\<lparr>send_ret := Returns 6, recv_data := Some (RESPONSE @ [NUL])\<rparr>"

definition hello_server_os :: os where
  "hello_server_os = plain_os\<lparr>send_ret := Returns 34, recv_data := Some (''hello'' @ [NUL])\<rparr>"

section \<open>Sequencing\<close>

lemma seq_Return [simp]: "seq (t, Return a) f = (t @ fst (f a), snd (f a))"
  by (simp add: seq_def split: prod.splits)

lemma seq_Exit [simp]: "seq (t, Exit c) f = (t, Exit c)"
  by (simp add: seq_def)

lemma seq_Killed [simp]: "seq (t, Killed) f = (t, Killed)"
  by (simp add: seq_def)

lemma seq_Undefined [simp]: "seq (t, Undefined) f = (t, Undefined)"
  by (simp add: seq_def)

lemma snd_seq:
  "snd (seq m f) =
     (case snd m of Return a \<Rightarrow> snd (f a) | Exit c \<Rightarrow> Exit c | Killed \<Rightarrow> Killed
      | Undefined \<Rightarrow> Undefined)"
  by (cases m; cases "snd m") (auto simp: seq_def split: prod.splits)

lemma fst_seq:
  "fst (seq m f) =
     (case snd m of Return a \<Rightarrow> fst m @ fst (f a) | Exit c \<Rightarrow> fst m | Killed \<Rightarrow> fst m
      | Undefined \<Rightarrow> fst m)"
  by (cases m; cases "snd m") (auto simp: seq_def split: prod.splits)

lemmas run_defs = ret_def emit_def exit_with_def

lemmas server_defs = server_main_def server_parse_arguments_def create_server_socket_def
  accept_client_def receive_message_def send_response_def server_cleanup_def
  sys_send_def sys_recv_def memset0_def store_def uninit_def BUFFER_SIZE_def

lemmas number_defs = atoi_def strtol_def int_of_long_def LONG_MAX_def LONG_MIN_def
  decimal_prefix_def isspace_def isdigit_def digit_val_def

section \<open>Reading runs piece by piece\<close>

lemma leaked_append: "leaked (t @ u) fds = leaked u (leaked t fds)"
  by (induction t fds rule: leaked.induct) auto

lemma sends_append: "sends (t @ u) = sends t @ sends u"
  by (induction t rule: sends.induct) auto

lemma wire_append: "wire (t @ u) = wire t @ wire u"
  by (induction t rule: wire.induct) auto

section \<open>Arrays and strings\<close>

lemma uninit_length [simp]: "length (uninit n g) = n"
  by (simp add: uninit_def)

lemma c_str_terminated: "NUL \<notin> set s \<Longrightarrow> c_str (s @ NUL # t) = s"
  unfolding c_str_def by (subst takeWhile_append2) auto

lemma c_str_cut: "c_str (s @ NUL # t) = c_str s"
  by (induction s) (auto simp: c_str_def)

lemma c_str_padded: "0 < k \<Longrightarrow> c_str (g @ replicate k NUL @ r) = c_str g"
  by (induction g) (auto simp: c_str_def gr0_conv_Suc)

lemma store_same: "i < length a \<Longrightarrow> a ! i = v \<Longrightarrow> store a i v = ret a"
  by (auto simp: store_def)

lemma strcspn_nl_line:
  assumes "NL \<notin> set msg" and "NUL \<notin> set msg"
  shows "strcspn_nl (msg @ NL # t) = ret (length msg)"
proof -
  have "takeWhile (\<lambda>c. c \<noteq> NUL \<and> c \<noteq> NL) (msg @ NL # t) = msg"
    using assms by (subst takeWhile_append2) auto
  then show ?thesis by (simp add: strcspn_nl_def)
qed

lemma fgets_chars_line:
  "NL \<notin> set msg \<Longrightarrow> length msg < n \<Longrightarrow> fgets_chars n (msg @ NL # rest) = msg @ [NL]"
  by (induction n msg rule: fgets_chars.induct) auto

lemma fgets_line:
  assumes "NL \<notin> set msg" and "length msg + 2 \<le> n"
  shows "fgets a n (msg @ NL # rest) = msg @ NL # NUL # drop (length msg + 2) a"
proof -
  have "fgets_chars (n - 1) (msg @ NL # rest) = msg @ [NL]"
    using assms by (intro fgets_chars_line) auto
  then show ?thesis by (simp add: fgets_def)
qed

section \<open>Port numbers\<close>

lemma int_of_long_small: "- (2 ^ 31) \<le> v \<Longrightarrow> v < 2 ^ 31 \<Longrightarrow> int_of_long v = v"
  by (simp add: int_of_long_def signed_of_int signed_take_bit_int_eq_self)

lemma atoi_no_valid_port:
  assumes "no_valid_port p"
  shows "atoi p \<le> 0 \<or> 65535 < atoi p"
proof (cases "decimal_prefix p")
  case None
  then show ?thesis
    by (simp add: atoi_def strtol_def int_of_long_def)
next
  case (Some v)
  with assms have v: "- (2 ^ 31) \<le> v" "v < 2 ^ 31" "v < 1 \<or> 65535 < v"
    by (simp_all add: no_valid_port_def)
  then have "strtol p = v"
    using Some by (simp add: strtol_def LONG_MAX_def LONG_MIN_def)
  then have "atoi p = v"
    using v by (simp add: atoi_def int_of_long_small)
  with v show ?thesis by auto
qed

text \<open>
  A number that does not fit an \<open>int\<close> is cut to its low 32 bits before the range is
  checked: both programs take \<open>4294967376\<close> for port 80.
\<close>

lemma port_beyond_int:
  "strtol ''4294967376'' = 4294967376"
  "client_port [c, a, ''4294967376''] = 80"
  "server_parse_arguments [s, ''4294967376''] = ([], Return 80)"
  by (simp_all add: client_port_def server_parse_arguments_def run_defs number_defs)

lemma hello_port: "client_port [c, ''127.0.0.1'', ''9000''] = 9000" "atoi ''9000'' = 9000"
  by (simp_all add: client_port_def number_defs)

section \<open>Sending\<close>

lemma send_message_line:
  assumes "NL \<notin> set msg" and "NUL \<notin> set msg" and "length msg \<le> 98"
    and "stdin_bytes env = msg @ NL # rest"
  shows "send_message sd env =
     (seq ([Stdout ''Enter a message to send: '',
            Stdout (''You are sending '' @ [QUOTE] @ msg @ [QUOTE, NL]),
            Stdout (''The length of the string is '' @ show_nat (length msg) @ '' bytes''
                      @ [NL])], Return ()) (\<lambda>_.
      seq (sys_send sd (msg @ [NUL]) env) (\<lambda>rc.
      if rc < 0 then ([Perror ''Error: send() failed''], Return (- 1))
      else ([Stdout (''Sent '' @ show_int rc @ '' bytes to the server'' @ [NL])], Return 0))))"
proof -
  let ?b0 = "uninit BUFFER_SIZE (stack_bytes env)"
  let ?t = "drop (Suc (Suc (length msg))) ?b0"
  have b1: "fgets ?b0 BUFFER_SIZE (stdin_bytes env) = msg @ NL # NUL # ?t"
    using assms by (simp add: fgets_line BUFFER_SIZE_def)
  have i: "strcspn_nl (msg @ NL # NUL # ?t) = ret (length msg)"
    using assms(1,2) by (rule strcspn_nl_line)
  have st: "store (msg @ NL # NUL # ?t) (length msg) NUL = ret (msg @ NUL # NUL # ?t)"
    by (simp add: store_def)
  have cs: "c_str (msg @ NUL # NUL # ?t) = msg"
    using assms(2) by (rule c_str_terminated)
  have sl: "strlen (msg @ NUL # NUL # ?t) = ret (length msg)"
    by (simp add: strlen_def cs)
  show ?thesis
    by (cases "send_ret env")
       (simp_all add: send_message_def b1 i st cs sl sys_send_def run_defs)
qed

lemma send_message_returns:
  assumes "NL \<notin> set msg" and "NUL \<notin> set msg" and "length msg \<le> 98"
    and "stdin_bytes env = msg @ NL # rest" and "send_ret env = Returns rc"
  shows "send_message sd env =
     ([Stdout ''Enter a message to send: '',
       Stdout (''You are sending '' @ [QUOTE] @ msg @ [QUOTE, NL]),
       Stdout (''The length of the string is '' @ show_nat (length msg) @ '' bytes'' @ [NL]),
       Send sd (msg @ [NUL]) (Returns rc),
       (if rc < 0 then Perror ''Error: send() failed''
        else Stdout (''Sent '' @ show_int rc @ '' bytes to the server'' @ [NL]))],
      Return (if rc < 0 then - 1 else 0))"
  using assms(5) by (simp add: send_message_line [OF assms(1-4)] sys_send_def)

lemma send_message_killed:
  assumes "NL \<notin> set msg" and "NUL \<notin> set msg" and "length msg \<le> 98"
    and "stdin_bytes env = msg @ NL # rest" and "send_ret env = Sigpipe"
  shows "send_message sd env =
     ([Stdout ''Enter a message to send: '',
       Stdout (''You are sending '' @ [QUOTE] @ msg @ [QUOTE, NL]),
       Stdout (''The length of the string is '' @ show_nat (length msg) @ '' bytes'' @ [NL]),
       Send sd (msg @ [NUL]) Sigpipe],
      Killed)"
  using assms(5) by (simp add: send_message_line [OF assms(1-4)] sys_send_def)

lemma send_message_outcome:
  "snd (send_message sd env) = Undefined
   \<or> snd (send_message sd env)
       = (case send_ret env of Returns rc \<Rightarrow> Return (if rc < 0 then - 1 else 0)
          | Sigpipe \<Rightarrow> Killed)"
  by (cases "send_ret env")
     (simp_all add: send_message_def strcspn_nl_def store_def strlen_def sys_send_def run_defs
        Let_def)

lemma send_message_leaked: "leaked (fst (send_message sd env)) fds = fds"
  by (cases "send_ret env")
     (simp_all add: send_message_def strcspn_nl_def store_def strlen_def sys_send_def run_defs
        Let_def)

lemma send_message_wire:
  assumes "NL \<notin> set msg" and "NUL \<notin> set msg" and "length msg \<le> 98"
    and "stdin_bytes env = msg @ NL # rest"
  shows "sends (fst (send_message sd env)) = [(sd, msg @ [NUL])]"
    and "send_ret env = Returns (int (length msg) + 1)
         \<Longrightarrow> wire (fst (send_message sd env)) = msg @ [NUL]"
  by (cases "send_ret env";
      simp add: send_message_line [OF assms] sys_send_def nat_add_distrib)+

lemma send_response_run:
  "send_response sd env =
     seq (sys_send sd (RESPONSE @ [NUL]) env) (\<lambda>rc.
     if rc < 0 then ([Perror ''Error: send() failed''], Return (- 1))
     else ([Stdout (''Response sent: '' @ RESPONSE @ [NL])], Return 0))"
  by (cases "send_ret env") (simp_all add: send_response_def sys_send_def run_defs Let_def)

lemma send_response_returns:
  assumes "send_ret env = Returns rc"
  shows "send_response sd env =
     ([Send sd (RESPONSE @ [NUL]) (Returns rc),
       (if rc < 0 then Perror ''Error: send() failed''
        else Stdout (''Response sent: '' @ RESPONSE @ [NL]))],
      Return (if rc < 0 then - 1 else 0))"
  using assms by (simp add: send_response_run sys_send_def)

lemma send_response_killed:
  assumes "send_ret env = Sigpipe"
  shows "send_response sd env = ([Send sd (RESPONSE @ [NUL]) Sigpipe], Killed)"
  using assms by (simp add: send_response_run sys_send_def)

lemma send_response_wire:
  "sends (fst (send_response sd env)) = [(sd, RESPONSE @ [NUL])]"
  "send_ret env = Returns 34 \<Longrightarrow> wire (fst (send_response sd env)) = RESPONSE @ [NUL]"
  by (cases "send_ret env"; simp add: send_response_run sys_send_def RESPONSE_def)+

section \<open>Receiving into a zeroed array\<close>

lemma recv_into_zeroed:
  assumes "recv_data env = Some d" and "0 \<le> n" and "nat n < N"
  shows "sys_recv sd (replicate N NUL @ r) n env =
           ([Recv sd (nat n) (int (length (take (nat n) d)))],
            Return (int (length (take (nat n) d)),
                    take (nat n) d @ replicate (N - length (take (nat n) d)) NUL @ r))"
  using assms by (simp add: sys_recv_def Let_def min_def)

lemma recv_fails:
  assumes "recv_data env = None" and "0 \<le> n" and "n \<le> int (length a)"
  shows "sys_recv sd a n env = ([Recv sd (nat n) (- 1)], Return (- 1, a))"
  using assms by (simp add: sys_recv_def)

lemma receive_message_data:
  assumes "recv_data env = Some d" and "1 \<le> buf_size" and "nat buf_size \<le> length buffer"
  shows "receive_message sd buffer buf_size env =
     (Recv sd (nat (buf_size - 1)) (int (length (take (nat (buf_size - 1)) d)))
        # (if take (nat (buf_size - 1)) d = []
           then [Stdout (''Client disconnected before sending data.'' @ [NL])]
           else [Stdout (''Received '' @ show_int (int (length (take (nat (buf_size - 1)) d)))
                          @ '' bytes'' @ [NL]),
                 Stdout (''Message: '' @ c_str (take (nat (buf_size - 1)) d) @ [NL])]),
      Return (int (length (take (nat (buf_size - 1)) d)),
              take (nat (buf_size - 1)) d
                @ replicate (nat buf_size - length (take (nat (buf_size - 1)) d)) NUL
                @ drop (nat buf_size) buffer))"
proof -
  define got where "got = take (nat (buf_size - 1)) d"
  let ?N = "nat buf_size"
  let ?b2 = "got @ replicate (?N - length got) NUL @ drop ?N buffer"
  have "nat (buf_size - 1) < ?N"
    using assms(2) by linarith
  then have len: "length got < ?N"
    by (simp add: got_def min_less_iff_disj)
  have m: "memset0 buffer buf_size = ret (replicate ?N NUL @ drop ?N buffer)"
    using assms by (simp add: memset0_def)
  have r: "sys_recv sd (replicate ?N NUL @ drop ?N buffer) (buf_size - 1) env =
             ([Recv sd (nat (buf_size - 1)) (int (length got))], Return (int (length got), ?b2))"
    unfolding got_def using assms by (intro recv_into_zeroed) auto
  have nth: "?b2 ! length got = NUL"
    using len by (simp add: nth_append)
  have st: "store ?b2 (length got) NUL = ret ?b2"
    using len nth by (intro store_same) auto
  have cs: "c_str ?b2 = c_str got"
    using len by (intro c_str_padded) simp
  have "receive_message sd buffer buf_size env =
     (Recv sd (nat (buf_size - 1)) (int (length got))
        # (if got = []
           then [Stdout (''Client disconnected before sending data.'' @ [NL])]
           else [Stdout (''Received '' @ show_int (int (length got)) @ '' bytes'' @ [NL]),
                 Stdout (''Message: '' @ c_str got @ [NL])]),
      Return (int (length got), ?b2))"
    unfolding receive_message_def m
    by (simp add: run_defs r st cs)
  then show ?thesis
    unfolding got_def .
qed

lemma receive_message_fails:
  assumes "recv_data env = None" and "1 \<le> buf_size" and "nat buf_size \<le> length buffer"
  shows "receive_message sd buffer buf_size env =
     ([Recv sd (nat (buf_size - 1)) (- 1), Perror ''Error: recv() failed''],
      Return (- 1, replicate (nat buf_size) NUL @ drop (nat buf_size) buffer))"
proof -
  have m: "memset0 buffer buf_size
             = ret (replicate (nat buf_size) NUL @ drop (nat buf_size) buffer)"
    using assms by (simp add: memset0_def)
  have r: "sys_recv sd (replicate (nat buf_size) NUL @ drop (nat buf_size) buffer)
             (buf_size - 1) env
           = ([Recv sd (nat (buf_size - 1)) (- 1)],
              Return (- 1, replicate (nat buf_size) NUL @ drop (nat buf_size) buffer))"
    using assms by (intro recv_fails) auto
  show ?thesis
    unfolding receive_message_def m by (simp add: run_defs r)
qed

lemma receive_message_undefined:
  assumes "buf_size < 1 \<or> length buffer < nat buf_size"
  shows "snd (receive_message sd buffer buf_size env) = Undefined"
  using assms
  by (auto simp: receive_message_def memset0_def sys_recv_def run_defs)

lemma receive_message_silent:
  "sends (fst (receive_message sd (uninit 100 g) 100 env)) = []
   \<and> wire (fst (receive_message sd (uninit 100 g) 100 env)) = []"
proof (cases "recv_data env")
  case None
  then show ?thesis
    using receive_message_fails [of env 100 "uninit 100 g" sd] by simp
next
  case (Some d)
  then show ?thesis
    using receive_message_data [of env d 100 "uninit 100 g" sd] by simp
qed

lemma receive_message_leaked:
  "leaked (fst (receive_message sd (uninit 100 g) 100 env)) fds = fds"
proof (cases "recv_data env")
  case None
  then show ?thesis
    using receive_message_fails [of env 100 "uninit 100 g" sd] by simp
next
  case (Some d)
  then show ?thesis
    using receive_message_data [of env d 100 "uninit 100 g" sd] by simp
qed

lemma receive_message_calls:
  "recv_calls (fst (receive_message sd (uninit 100 g) 100 env))
     = [(99, case recv_data env of None \<Rightarrow> - 1 | Some d \<Rightarrow> int (min (length d) 99))]"
proof (cases "recv_data env")
  case None
  then show ?thesis
    using receive_message_fails [of env 100 "uninit 100 g" sd] by simp
next
  case (Some d)
  then show ?thesis
    using receive_message_data [of env d 100 "uninit 100 g" sd] by simp
qed

lemma receive_message_terminated:
  assumes "receive_message sd buffer buf_size env = (t, Return (rc, b))" and "0 \<le> rc"
  shows "rc \<le> buf_size - 1 \<and> nat rc < length b \<and> b ! nat rc = NUL
         \<and> (\<forall>i. nat rc \<le> i \<and> i < nat buf_size \<longrightarrow> b ! i = NUL)"
proof (cases "buf_size < 1 \<or> length buffer < nat buf_size")
  case True
  then have "snd (receive_message sd buffer buf_size env) = Undefined"
    by (rule receive_message_undefined)
  with assms show ?thesis by simp
next
  case False
  then have size: "1 \<le> buf_size" "nat buf_size \<le> length buffer"
    by auto
  show ?thesis
  proof (cases "recv_data env")
    case None
    with assms size show ?thesis
      by (simp add: receive_message_fails)
  next
    case (Some d)
    define got where "got = take (nat (buf_size - 1)) d"
    have rc: "rc = int (length got)"
      and b: "b = got @ replicate (nat buf_size - length got) NUL @ drop (nat buf_size) buffer"
      using assms(1) size Some by (simp_all add: receive_message_data got_def)
    have "length got \<le> nat (buf_size - 1)"
      by (simp add: got_def)
    with size have len: "int (length got) \<le> buf_size - 1" "length got < nat buf_size"
      by linarith+
    have "b ! i = NUL" if "length got \<le> i" "i < nat buf_size" for i
      using that by (auto simp: b nth_append)
    with len size show ?thesis
      by (simp add: rc) (simp add: b)
  qed
qed

lemma receive_response_data:
  assumes "recv_data env = Some d"
  shows "receive_response sd env =
     (Recv sd 99 (int (length (take 99 d)))
        # (if take 99 d = []
           then [Stdout (''Server closed the connection without responding.'' @ [NL])]
           else [Stdout (''Server response: '' @ c_str (take 99 d) @ [NL])]),
      Return (if take 99 d = [] then - 1 else 0, int (length (take 99 d)),
              take 99 d @ replicate (100 - length (take 99 d)) NUL))"
proof -
  define got where "got = take 99 d"
  let ?b2 = "got @ replicate (100 - length got) NUL"
  have len: "length got < 100"
    by (simp add: got_def min_less_iff_disj)
  have m: "memset0 (uninit BUFFER_SIZE (stack_bytes env)) (int BUFFER_SIZE)
             = ret (replicate 100 NUL)"
    by (simp add: memset0_def BUFFER_SIZE_def)
  have r: "sys_recv sd (replicate 100 NUL) (int BUFFER_SIZE - 1) env =
             ([Recv sd 99 (int (length got))], Return (int (length got), ?b2))"
    unfolding got_def
    using assms recv_into_zeroed [of env d 99 100 sd "[]"] by (simp add: BUFFER_SIZE_def)
  have nth: "?b2 ! length got = NUL"
    using len by (simp add: nth_append)
  have st: "store ?b2 (length got) NUL = ret ?b2"
    using len nth by (intro store_same) auto
  have cs: "c_str ?b2 = c_str got"
    using len c_str_padded [of "100 - length got" got "[]"] by simp
  have "receive_response sd env =
     (Recv sd 99 (int (length got))
        # (if got = []
           then [Stdout (''Server closed the connection without responding.'' @ [NL])]
           else [Stdout (''Server response: '' @ c_str got @ [NL])]),
      Return (if got = [] then - 1 else 0, int (length got), ?b2))"
    unfolding receive_response_def Let_def m
    by (simp add: run_defs r st cs)
  then show ?thesis
    unfolding got_def .
qed

lemma receive_response_fails:
  assumes "recv_data env = None"
  shows "receive_response sd env =
     ([Recv sd 99 (- 1), Perror ''Error: recv() failed''],
      Return (- 1, - 1, replicate 100 NUL))"
proof -
  have m: "memset0 (uninit BUFFER_SIZE (stack_bytes env)) (int BUFFER_SIZE)
             = ret (replicate 100 NUL)"
    by (simp add: memset0_def BUFFER_SIZE_def)
  have r: "sys_recv sd (replicate 100 NUL) (int BUFFER_SIZE - 1) env
           = ([Recv sd 99 (- 1)], Return (- 1, replicate 100 NUL))"
    using assms recv_fails [of env 99 "replicate 100 NUL" sd] by (simp add: BUFFER_SIZE_def)
  show ?thesis
    unfolding receive_response_def Let_def m by (simp add: run_defs r)
qed

lemma receive_response_outcome: "\<exists>v. snd (receive_response sd env) = Return v"
  by (cases "recv_data env") (simp_all add: receive_response_data receive_response_fails)

lemma receive_response_leaked: "leaked (fst (receive_response sd env)) fds = fds"
  by (cases "recv_data env") (simp_all add: receive_response_data receive_response_fails)

lemma receive_response_silent:
  "sends (fst (receive_response sd env)) = [] \<and> wire (fst (receive_response sd env)) = []"
  by (cases "recv_data env") (simp_all add: receive_response_data receive_response_fails)

lemma receive_response_calls:
  "recv_calls (fst (receive_response sd env))
     = [(99, case recv_data env of None \<Rightarrow> - 1 | Some d \<Rightarrow> int (min (length d) 99))]"
proof (cases "recv_data env")
  case None
  then show ?thesis
    by (simp add: receive_response_fails)
next
  case (Some d)
  then show ?thesis
    by (simp add: receive_response_data)
qed

lemma receive_response_terminated:
  assumes "receive_response sd env = (t, Return (r, rc, b))" and "0 \<le> rc"
  shows "rc \<le> 99 \<and> length b = 100 \<and> b ! nat rc = NUL
         \<and> (\<forall>i. nat rc \<le> i \<and> i < 100 \<longrightarrow> b ! i = NUL)"
proof (cases "recv_data env")
  case None
  with assms show ?thesis
    by (simp add: receive_response_fails)
next
  case (Some d)
  define got where "got = take 99 d"
  have rc: "rc = int (length got)"
    and b: "b = got @ replicate (100 - length got) NUL"
    using assms(1) Some by (simp_all add: receive_response_data got_def)
  have len: "length got \<le> 99"
    by (simp add: got_def)
  have "b ! i = NUL" if "length got \<le> i" "i < 100" for i
    using that by (simp add: b nth_append)
  with len show ?thesis
    by (simp add: rc) (simp add: b)
qed

section \<open>Whole runs\<close>

lemma client_parse_arguments_cases:
  "client_parse_arguments argv buf =
     (if length argv < 3
      then ([Stderr (''usage is: client <ipaddr> <portnumber>'' @ [NL])], Exit 1)
      else if length buf < length (argv ! 1) + 1 then ([], Undefined)
      else if client_port argv \<le> 0 \<or> 65535 < client_port argv
      then ([Stderr (invalid_port_msg (argv ! 2))], Exit 1)
      else ([], Return (argv ! 1 @ NUL # drop (length (argv ! 1) + 1) buf, client_port argv)))"
  by (simp add: client_parse_arguments_def strcpy_def run_defs client_port_def Let_def)

lemma create_client_socket_cases:
  "create_client_socket ip port env =
     (if socket_ret env < 0
      then ([Socket (socket_ret env), Perror ''Error: socket() failed''], Exit 1)
      else if connect_ret env < 0
      then ([Socket (socket_ret env), Connect (socket_ret env) (c_str ip) port (connect_ret env),
             Perror ''Error: connect() failed'', Close (socket_ret env)], Exit 1)
      else ([Socket (socket_ret env), Connect (socket_ret env) (c_str ip) port (connect_ret env),
             Stdout (''Connected to server at '' @ c_str ip @ '':'' @ show_int port @ [NL])],
            Return (socket_ret env)))"
  by (simp add: create_client_socket_def run_defs Let_def)

lemma client_cleanup_run:
  "client_cleanup sd =
     ((if sd \<ge> 0 then [Close sd] else []) @ [Stdout (''Connection closed.'' @ [NL])], Return ())"
  by (simp add: client_cleanup_def run_defs)

lemma client_exchange_outcome:
  "snd (seq (send_message sd env) (\<lambda>sent.
        seq (if sent = 0 then seq (receive_response sd env) (\<lambda>_. ret ()) else ret ()) (\<lambda>_.
        seq (client_cleanup sd) (\<lambda>_. ret 0)))) = Undefined
   \<or> snd (seq (send_message sd env) (\<lambda>sent.
        seq (if sent = 0 then seq (receive_response sd env) (\<lambda>_. ret ()) else ret ()) (\<lambda>_.
        seq (client_cleanup sd) (\<lambda>_. ret 0)))) = (if send_ret env = Sigpipe then Killed else Return 0)"
  using send_message_outcome [of sd env] receive_response_outcome [of sd env]
  by (cases "send_ret env") (auto simp: snd_seq client_cleanup_run ret_def split: if_splits)

lemma client_exchange_leaked:
  assumes "0 \<le> sd"
    and "snd (seq (send_message sd env) (\<lambda>sent.
        seq (if sent = 0 then seq (receive_response sd env) (\<lambda>_. ret ()) else ret ()) (\<lambda>_.
        seq (client_cleanup sd) (\<lambda>_. ret 0)))) \<noteq> Undefined"
    and "snd (seq (send_message sd env) (\<lambda>sent.
        seq (if sent = 0 then seq (receive_response sd env) (\<lambda>_. ret ()) else ret ()) (\<lambda>_.
        seq (client_cleanup sd) (\<lambda>_. ret 0)))) \<noteq> Killed"
  shows "leaked (fst (seq (send_message sd env) (\<lambda>sent.
        seq (if sent = 0 then seq (receive_response sd env) (\<lambda>_. ret ()) else ret ()) (\<lambda>_.
        seq (client_cleanup sd) (\<lambda>_. ret 0))))) [sd] = []"
  using assms send_message_outcome [of sd env] receive_response_outcome [of sd env]
  by (cases "send_ret env")
     (auto simp: snd_seq fst_seq client_cleanup_run ret_def leaked_append
        send_message_leaked receive_response_leaked split: if_splits)

lemma client_outcome:
  assumes "snd (client_main argv env) \<noteq> Undefined"
  shows "snd (client_main argv env) =
           (if length argv < 3 \<or> client_port argv \<le> 0 \<or> 65535 < client_port argv
               \<or> socket_ret env < 0 \<or> connect_ret env < 0
            then Exit 1
            else if send_ret env = Sigpipe then Killed else Return 0)"
  using assms
    client_exchange_outcome [of "socket_ret env" env]
  by (auto simp: client_main_def client_parse_arguments_cases create_client_socket_cases
        split: if_splits)

lemma client_no_leak:
  assumes "snd (client_main argv env) \<noteq> Undefined" and "snd (client_main argv env) \<noteq> Killed"
  shows "leaked (fst (client_main argv env)) [] = []"
  using assms client_exchange_leaked [of "socket_ret env" env]
  by (auto simp: client_main_def client_parse_arguments_cases create_client_socket_cases
        leaked_append split: if_splits)

lemma client_main_line:
  assumes "3 \<le> length argv" and "length (argv ! 1) \<le> 28"
    and "0 < client_port argv" and "client_port argv \<le> 65535"
    and "0 \<le> socket_ret env" and "0 \<le> connect_ret env"
    and "NL \<notin> set msg" and "NUL \<notin> set msg" and "length msg \<le> 98"
    and "stdin_bytes env = msg @ NL # rest"
    and "send_ret env = Returns rc"
  shows "client_main argv env =
     ([Socket (socket_ret env),
       Connect (socket_ret env) (c_str (argv ! 1)) (client_port argv) (connect_ret env),
       Stdout (''Connected to server at '' @ c_str (argv ! 1) @ '':''
                 @ show_int (client_port argv) @ [NL])]
      @ fst (send_message (socket_ret env) env)
      @ (if rc < 0 then [] else fst (receive_response (socket_ret env) env))
      @ [Close (socket_ret env), Stdout (''Connection closed.'' @ [NL])],
      Return 0)"
proof -
  obtain v where v: "snd (receive_response (socket_ret env) env) = Return v"
    using receive_response_outcome by blast
  have s: "snd (send_message (socket_ret env) env) = Return (if rc < 0 then - 1 else 0)"
    using assms(7-11) by (simp add: send_message_returns)
  show ?thesis
    using assms(1-6)
    by (simp add: client_main_def client_parse_arguments_cases create_client_socket_cases
          c_str_cut prod_eq_iff fst_seq snd_seq s v client_cleanup_run ret_def)
qed

lemma client_main_killed:
  assumes "3 \<le> length argv" and "length (argv ! 1) \<le> 28"
    and "0 < client_port argv" and "client_port argv \<le> 65535"
    and "0 \<le> socket_ret env" and "0 \<le> connect_ret env"
    and "NL \<notin> set msg" and "NUL \<notin> set msg" and "length msg \<le> 98"
    and "stdin_bytes env = msg @ NL # rest"
    and "send_ret env = Sigpipe"
  shows "client_main argv env =
     ([Socket (socket_ret env),
       Connect (socket_ret env) (c_str (argv ! 1)) (client_port argv) (connect_ret env),
       Stdout (''Connected to server at '' @ c_str (argv ! 1) @ '':''
                 @ show_int (client_port argv) @ [NL])]
      @ fst (send_message (socket_ret env) env),
      Killed)"
proof -
  have s: "snd (send_message (socket_ret env) env) = Killed"
    using assms(7-11) by (simp add: send_message_killed)
  show ?thesis
    using assms(1-6)
    by (simp add: client_main_def client_parse_arguments_cases create_client_socket_cases
          c_str_cut prod_eq_iff fst_seq snd_seq s)
qed

lemma client_main_wire:
  assumes "3 \<le> length argv" and "length (argv ! 1) \<le> 28"
    and "0 < client_port argv" and "client_port argv \<le> 65535"
    and "0 \<le> socket_ret env" and "0 \<le> connect_ret env"
    and "NL \<notin> set msg" and "NUL \<notin> set msg" and "length msg \<le> 98"
    and "stdin_bytes env = msg @ NL # rest"
    and "send_ret env = Returns rc"
  shows "sends (fst (client_main argv env)) = [(socket_ret env, msg @ [NUL])]"
    and "rc = int (length msg) + 1 \<Longrightarrow> wire (fst (client_main argv env)) = msg @ [NUL]"
  using send_message_wire [OF assms(7-10), of "socket_ret env"] assms(11)
  by (simp_all add: client_main_line [OF assms] sends_append wire_append receive_response_silent)

lemma client_run_hello:
  assumes "stdin_bytes env = ''hello'' @ [NL]" and "socket_ret env = 3" and "connect_ret env = 0"
    and "send_ret env = Returns rc"
  shows "client_main client_args env =
     ([Socket 3, Connect 3 ''127.0.0.1'' 9000 0,
       Stdout (''Connected to server at 127.0.0.1:9000'' @ [NL]),
       Stdout ''Enter a message to send: '',
       Stdout (''You are sending '' @ [QUOTE] @ ''hello'' @ [QUOTE, NL]),
       Stdout (''The length of the string is 5 bytes'' @ [NL]),
       Send 3 (''hello'' @ [NUL]) (Returns rc),
       (if rc < 0 then Perror ''Error: send() failed''
        else Stdout (''Sent '' @ show_int rc @ '' bytes to the server'' @ [NL]))]
      @ (if rc < 0 then [] else fst (receive_response 3 env))
      @ [Close 3, Stdout (''Connection closed.'' @ [NL])],
      Return 0)"
proof -
  have p: "client_port client_args = 9000"
    by (simp add: client_args_def hello_port)
  show ?thesis
    using assms
      client_main_line [where argv = client_args and env = env and msg = "''hello''"
        and rest = "[]" and rc = rc]
      send_message_returns [where env = env and msg = "''hello''" and rest = "[]" and sd = 3
        and rc = rc]
    by (simp add: p) (simp add: client_args_def c_str_def show_int_def show_nat.simps)
qed

lemma client_killed_hello:
  assumes "stdin_bytes env = ''hello'' @ [NL]" and "socket_ret env = 3" and "connect_ret env = 0"
    and "send_ret env = Sigpipe"
  shows "client_main client_args env =
     ([Socket 3, Connect 3 ''127.0.0.1'' 9000 0,
       Stdout (''Connected to server at 127.0.0.1:9000'' @ [NL]),
       Stdout ''Enter a message to send: '',
       Stdout (''You are sending '' @ [QUOTE] @ ''hello'' @ [QUOTE, NL]),
       Stdout (''The length of the string is 5 bytes'' @ [NL]),
       Send 3 (''hello'' @ [NUL]) Sigpipe],
      Killed)"
proof -
  have p: "client_port client_args = 9000"
    by (simp add: client_args_def hello_port)
  show ?thesis
    using assms
      client_main_killed [where argv = client_args and env = env and msg = "''hello''"
        and rest = "[]"]
      send_message_killed [where env = env and msg = "''hello''" and rest = "[]" and sd = 3]
    by (simp add: p) (simp add: client_args_def c_str_def show_int_def show_nat.simps)
qed

lemma server_main_run:
  assumes "2 \<le> length argv" and "0 < atoi (argv ! 1)" and "atoi (argv ! 1) \<le> 65535"
    and "0 \<le> socket_ret env" and "0 \<le> setsockopt_ret env" and "0 \<le> bind_ret env"
    and "0 \<le> listen_ret env" and "0 \<le> accept_ret env"
    and "recv_data env = Some d" and "send_ret env = Returns rc"
  shows "server_main argv env =
     ([Socket (socket_ret env), Setsockopt (socket_ret env) (setsockopt_ret env),
       Bind (socket_ret env) (atoi (argv ! 1)) (bind_ret env),
       Listen (socket_ret env) BACKLOG (listen_ret env),
       Stdout (''Server is listening on port '' @ show_int (atoi (argv ! 1)) @ ''...'' @ [NL]),
       Stdout (''Waiting for a client to connect...'' @ [NL]),
       Accept (socket_ret env) (accept_ret env),
       Stdout (''Client connected successfully from '' @ peer_addr env @ '':''
                 @ show_nat (peer_port env) @ [NL])]
      @ fst (receive_message (accept_ret env) (uninit 100 (stack_bytes env)) 100 env)
      @ (if d = [] then [] else fst (send_response (accept_ret env) env))
      @ [Close (accept_ret env), Close (socket_ret env),
         Stdout (''Server shut down. All sockets closed.'' @ [NL])],
      Return 0)"
proof -
  have r: "receive_message (accept_ret env) (uninit 100 (stack_bytes env)) 100 env =
     (Recv (accept_ret env) 99 (int (length (take 99 d)))
        # (if take 99 d = []
           then [Stdout (''Client disconnected before sending data.'' @ [NL])]
           else [Stdout (''Received '' @ show_int (int (length (take 99 d))) @ '' bytes'' @ [NL]),
                 Stdout (''Message: '' @ c_str (take 99 d) @ [NL])]),
      Return (int (length (take 99 d)),
              take 99 d @ replicate (100 - length (take 99 d)) NUL))"
    using receive_message_data [OF assms(9), of 100 "uninit 100 (stack_bytes env)" "accept_ret env"]
    by simp
  show ?thesis
    using assms(1-8)
    by (simp add: server_main_def server_parse_arguments_def create_server_socket_def
          accept_client_def server_cleanup_def BUFFER_SIZE_def run_defs Let_def r
          send_response_returns [OF assms(10)])
qed

lemma server_main_killed:
  assumes "2 \<le> length argv" and "0 < atoi (argv ! 1)" and "atoi (argv ! 1) \<le> 65535"
    and "0 \<le> socket_ret env" and "0 \<le> setsockopt_ret env" and "0 \<le> bind_ret env"
    and "0 \<le> listen_ret env" and "0 \<le> accept_ret env"
    and "recv_data env = Some d" and "send_ret env = Sigpipe" and "d \<noteq> []"
  shows "server_main argv env =
     ([Socket (socket_ret env), Setsockopt (socket_ret env) (setsockopt_ret env),
       Bind (socket_ret env) (atoi (argv ! 1)) (bind_ret env),
       Listen (socket_ret env) BACKLOG (listen_ret env),
       Stdout (''Server is listening on port '' @ show_int (atoi (argv ! 1)) @ ''...'' @ [NL]),
       Stdout (''Waiting for a client to connect...'' @ [NL]),
       Accept (socket_ret env) (accept_ret env),
       Stdout (''Client connected successfully from '' @ peer_addr env @ '':''
                 @ show_nat (peer_port env) @ [NL])]
      @ fst (receive_message (accept_ret env) (uninit 100 (stack_bytes env)) 100 env)
      @ [Send (accept_ret env) (RESPONSE @ [NUL]) Sigpipe],
      Killed)"
proof -
  have r: "receive_message (accept_ret env) (uninit 100 (stack_bytes env)) 100 env =
     (Recv (accept_ret env) 99 (int (length (take 99 d)))
        # (if take 99 d = []
           then [Stdout (''Client disconnected before sending data.'' @ [NL])]
           else [Stdout (''Received '' @ show_int (int (length (take 99 d))) @ '' bytes'' @ [NL]),
                 Stdout (''Message: '' @ c_str (take 99 d) @ [NL])]),
      Return (int (length (take 99 d)),
              take 99 d @ replicate (100 - length (take 99 d)) NUL))"
    using receive_message_data [OF assms(9), of 100 "uninit 100 (stack_bytes env)" "accept_ret env"]
    by simp
  show ?thesis
    using assms(1-8,11)
    by (simp add: server_main_def server_parse_arguments_def create_server_socket_def
          accept_client_def server_cleanup_def BUFFER_SIZE_def run_defs Let_def r
          send_response_killed [OF assms(10)])
qed

lemma server_main_wire:
  assumes "2 \<le> length argv" and "0 < atoi (argv ! 1)" and "atoi (argv ! 1) \<le> 65535"
    and "0 \<le> socket_ret env" and "0 \<le> setsockopt_ret env" and "0 \<le> bind_ret env"
    and "0 \<le> listen_ret env" and "0 \<le> accept_ret env"
    and "recv_data env = Some d" and "d \<noteq> []" and "send_ret env = Returns 34"
  shows "wire (fst (server_main argv env)) = RESPONSE @ [NUL]"
  using assms(10) send_response_wire(2) [OF assms(11), of "accept_ret env"]
  by (simp add: server_main_run [OF assms(1-9,11)] wire_append receive_message_silent)

lemma server_no_leak:
  assumes "snd (server_main argv env) \<noteq> Killed"
  shows "leaked (fst (server_main argv env)) [] = []"
  using assms
  by (auto simp: server_defs run_defs Let_def min_def
        split: if_splits option.splits send_result.splits)

lemma server_outcome:
  "snd (server_main argv env) = Return 0 \<or> snd (server_main argv env) = Exit 1
   \<or> snd (server_main argv env) = Killed \<and> send_ret env = Sigpipe"
  by (auto simp: server_defs run_defs Let_def min_def
        split: if_splits option.splits send_result.splits)

lemma hello_os_fields:
  "stdin_bytes hello_client_os = ''hello'' @ NL # []" "socket_ret hello_client_os = 3"
  "connect_ret hello_client_os = 0" "send_ret hello_client_os = Returns 6"
  "recv_data hello_client_os = Some (RESPONSE @ [NUL])"
  "socket_ret hello_server_os = 3" "setsockopt_ret hello_server_os = 0"
  "bind_ret hello_server_os = 0" "listen_ret hello_server_os = 0"
  "accept_ret hello_server_os = 4" "send_ret hello_server_os = Returns 34"
  "recv_data hello_server_os = Some (''hello'' @ [NUL])"
  by (simp_all add: hello_client_os_def hello_server_os_def plain_os_def)

section \<open>The exchange\<close>

text \<open>
  C1. A message of at most 98 bytes, typed as one line at the client, with no terminator
  and no newline inside: \<open>send_message\<close> hands \<open>send\<close> the message and one terminator,
  its length plus one bytes. When \<open>send\<close> takes them all and the connection gives each
  side what the other sent, \<open>receive_message\<close> returns that number and the server's array
  starts with the same bytes, terminator included; \<open>send_response\<close> hands \<open>send\<close> the
  fixed acknowledgement and the client's array in \<open>receive_response\<close> starts with the same
  bytes.
\<close>

theorem round_trip:
  assumes "length msg \<le> 98" and "NUL \<notin> set msg" and "NL \<notin> set msg"
    and "stdin_bytes cenv = msg @ NL # rest"
    and "send_ret cenv = Returns (int (length msg) + 1)"
    and "recv_data senv = Some (wire (fst (send_message csd cenv)))"
    and "send_ret senv = Returns 34"
    and "recv_data cenv = Some (wire (fst (send_response ssd senv)))"
  shows "sends (fst (send_message csd cenv)) = [(csd, msg @ [NUL])]
       \<and> length (msg @ [NUL]) = length msg + 1
       \<and> snd (receive_message ssd (uninit BUFFER_SIZE g) (int BUFFER_SIZE) senv)
           = Return (int (length msg) + 1, (msg @ [NUL]) @ replicate (99 - length msg) NUL)
       \<and> sends (fst (send_response ssd senv)) = [(ssd, RESPONSE @ [NUL])]
       \<and> snd (receive_response csd cenv)
           = Return (0, 34, (RESPONSE @ [NUL]) @ replicate 66 NUL)"
proof -
  have sm: "sends (fst (send_message csd cenv)) = [(csd, msg @ [NUL])]"
    using assms(3,2,1,4) by (rule send_message_wire(1))
  have w: "wire (fst (send_message csd cenv)) = msg @ [NUL]"
    using assms(3,2,1,4,5) by (rule send_message_wire(2))
  have sd: "recv_data senv = Some (msg @ [NUL])"
    using assms(6) w by simp
  have rm: "snd (receive_message ssd (uninit BUFFER_SIZE g) (int BUFFER_SIZE) senv)
           = Return (int (length msg) + 1, (msg @ [NUL]) @ replicate (99 - length msg) NUL)"
    using assms(1) receive_message_data [OF sd, of 100 "uninit 100 g" ssd]
    by (simp add: BUFFER_SIZE_def)
  have w': "wire (fst (send_response ssd senv)) = RESPONSE @ [NUL]"
    using assms(7) by (rule send_response_wire(2))
  have cd: "recv_data cenv = Some (RESPONSE @ [NUL])"
    using assms(8) w' by simp
  have rr: "snd (receive_response csd cenv)
           = Return (0, 34, (RESPONSE @ [NUL]) @ replicate 66 NUL)"
    using receive_response_data [OF cd, of csd] by (simp add: RESPONSE_def)
  show ?thesis
    using rm rr by (simp add: sm send_response_wire(1))
qed

theorem round_trip_witness:
  "length ''hello'' \<le> 98 \<and> NUL \<notin> set ''hello'' \<and> NL \<notin> set ''hello''
   \<and> recv_data hello_server_os = Some (wire (fst (send_message 3 hello_client_os)))
   \<and> recv_data hello_client_os = Some (wire (fst (send_response 4 hello_server_os)))
   \<and> sends (fst (send_message 3 hello_client_os)) = [(3, ''hello'' @ [NUL])]
   \<and> snd (receive_message 4 (uninit BUFFER_SIZE (stack_bytes hello_server_os)) (int BUFFER_SIZE)
            hello_server_os)
       = Return (6, ''hello'' @ [NUL] @ replicate 94 NUL)
   \<and> snd (receive_response 3 hello_client_os)
       = Return (0, 34, ''Server acknowledged your message!'' @ [NUL] @ replicate 66 NUL)"
proof -
  have m: "length ''hello'' \<le> 98" "NUL \<notin> set ''hello''" "NL \<notin> set ''hello''"
    "stdin_bytes hello_client_os = ''hello'' @ NL # []"
    "send_ret hello_client_os = Returns (int (length ''hello'') + 1)"
    by (simp_all add: hello_os_fields)
  have a: "recv_data hello_server_os = Some (wire (fst (send_message 3 hello_client_os)))"
    using send_message_wire(2) [OF m(3,2,1,4,5), of 3] by (simp add: hello_os_fields)
  have s: "send_ret hello_server_os = Returns 34"
    by (simp add: hello_os_fields)
  have b: "recv_data hello_client_os = Some (wire (fst (send_response 4 hello_server_os)))"
    using send_response_wire(2) [OF s, of 4] by (simp add: hello_os_fields)
  show ?thesis
    using m a b round_trip [OF m a s b, of "stack_bytes hello_server_os"]
    by (simp add: RESPONSE_def)
qed

text \<open>
  C8. The operator types \<open>hello\<close> at a client started with \<open>127.0.0.1 9000\<close>, the server
  runs on port 9000, every call succeeds and the connection gives each side what the
  other sent. The client sends the six bytes of \<open>hello\<close> and the terminator, without the
  newline; the server prints \<open>Received 6 bytes\<close> and \<open>Message: hello\<close>; the client prints
  \<open>Server response: Server acknowledged your message!\<close>.
\<close>

theorem hello_scenario:
  assumes "stdin_bytes cenv = ''hello'' @ NL # rest"
    and "0 \<le> socket_ret cenv" and "0 \<le> connect_ret cenv"
    and "send_ret cenv = Returns 6"
    and "0 \<le> socket_ret senv" and "0 \<le> setsockopt_ret senv" and "0 \<le> bind_ret senv"
    and "0 \<le> listen_ret senv" and "0 \<le> accept_ret senv"
    and "send_ret senv = Returns 34"
    and "recv_data senv = Some (wire (fst (client_main [c, ''127.0.0.1'', ''9000''] cenv)))"
    and "recv_data cenv = Some (wire (fst (server_main [s, ''9000''] senv)))"
  shows "sends (fst (client_main [c, ''127.0.0.1'', ''9000''] cenv))
           = [(socket_ret cenv, ''hello'' @ [NUL])]
       \<and> length (''hello'' @ [NUL]) = 6
       \<and> Stdout (''Received 6 bytes'' @ [NL]) \<in> set (fst (server_main [s, ''9000''] senv))
       \<and> Stdout (''Message: hello'' @ [NL]) \<in> set (fst (server_main [s, ''9000''] senv))
       \<and> Stdout (''Server response: Server acknowledged your message!'' @ [NL])
           \<in> set (fst (client_main [c, ''127.0.0.1'', ''9000''] cenv))"
proof -
  let ?cargv = "[c, ''127.0.0.1'', ''9000'']"
  let ?sargv = "[s, ''9000'']"
  let ?csd = "socket_ret cenv"
  let ?ssd = "accept_ret senv"
  have ca: "3 \<le> length ?cargv" "length (?cargv ! 1) \<le> 28"
    "0 < client_port ?cargv" "client_port ?cargv \<le> 65535"
    by (simp_all add: hello_port)
  have ms: "NL \<notin> set ''hello''" "NUL \<notin> set ''hello''" "length ''hello'' \<le> 98"
    by simp_all
  note cm = client_main_line [OF ca assms(2,3) ms assms(1,4)]
  have cs: "sends (fst (client_main ?cargv cenv)) = [(?csd, ''hello'' @ [NUL])]"
    by (rule client_main_wire(1) [OF ca assms(2,3) ms assms(1,4)])
  have "wire (fst (client_main ?cargv cenv)) = ''hello'' @ [NUL]"
    by (intro client_main_wire(2) [OF ca assms(2,3) ms assms(1,4)]) simp
  with assms(11) have sd: "recv_data senv = Some (''hello'' @ [NUL])"
    by simp
  have sa: "2 \<le> length ?sargv" "0 < atoi (?sargv ! 1)" "atoi (?sargv ! 1) \<le> 65535"
    by (simp_all add: hello_port)
  note srv = server_main_run [OF sa assms(5-9) sd assms(10)]
  have rm: "fst (receive_message ?ssd (uninit 100 (stack_bytes senv)) 100 senv) =
     [Recv ?ssd 99 6, Stdout (''Received 6 bytes'' @ [NL]), Stdout (''Message: hello'' @ [NL])]"
    using receive_message_data [OF sd, of 100 "uninit 100 (stack_bytes senv)" ?ssd]
    by (simp add: show_int_def show_nat.simps c_str_def)
  have "wire (fst (server_main ?sargv senv)) = RESPONSE @ [NUL]"
    by (rule server_main_wire [OF sa assms(5-9) sd _ assms(10)]) simp
  with assms(12) have cd: "recv_data cenv = Some (RESPONSE @ [NUL])"
    by simp
  have rr: "fst (receive_response ?csd cenv) =
     [Recv ?csd 99 34, Stdout (''Server response: '' @ RESPONSE @ [NL])]"
    using receive_response_data [OF cd, of ?csd] by (simp add: RESPONSE_def c_str_def)
  have 2: "Stdout (''Received 6 bytes'' @ [NL]) \<in> set (fst (server_main ?sargv senv))"
    "Stdout (''Message: hello'' @ [NL]) \<in> set (fst (server_main ?sargv senv))"
    by (simp_all add: srv rm)
  have 3: "Stdout (''Server response: Server acknowledged your message!'' @ [NL])
           \<in> set (fst (client_main ?cargv cenv))"
    by (simp add: cm rr RESPONSE_def)
  show ?thesis
    using cs 2 3 by simp
qed

theorem hello_scenario_witness:
  "recv_data hello_server_os = Some (wire (fst (client_main client_args hello_client_os)))
   \<and> recv_data hello_client_os = Some (wire (fst (server_main server_args hello_server_os)))
   \<and> sends (fst (client_main client_args hello_client_os)) = [(3, ''hello'' @ [NUL])]
   \<and> Stdout (''Received 6 bytes'' @ [NL]) \<in> set (fst (server_main server_args hello_server_os))
   \<and> Stdout (''Message: hello'' @ [NL]) \<in> set (fst (server_main server_args hello_server_os))
   \<and> Stdout (''Server response: Server acknowledged your message!'' @ [NL])
        \<in> set (fst (client_main client_args hello_client_os))"
proof -
  let ?cargv = "[''./client'', ''127.0.0.1'', ''9000'']"
  let ?sargv = "[''./server'', ''9000'']"
  have f: "stdin_bytes hello_client_os = ''hello'' @ NL # []" "0 \<le> socket_ret hello_client_os"
    "0 \<le> connect_ret hello_client_os" "send_ret hello_client_os = Returns 6"
    "0 \<le> socket_ret hello_server_os" "0 \<le> setsockopt_ret hello_server_os"
    "0 \<le> bind_ret hello_server_os" "0 \<le> listen_ret hello_server_os"
    "0 \<le> accept_ret hello_server_os" "send_ret hello_server_os = Returns 34"
    by (simp_all add: hello_os_fields)
  have ca: "3 \<le> length ?cargv" "length (?cargv ! 1) \<le> 28"
    "0 < client_port ?cargv" "client_port ?cargv \<le> 65535"
    by (simp_all add: hello_port)
  have ms: "NL \<notin> set ''hello''" "NUL \<notin> set ''hello''" "length ''hello'' \<le> 98"
    by simp_all
  have "wire (fst (client_main ?cargv hello_client_os)) = ''hello'' @ [NUL]"
    by (rule client_main_wire(2) [OF ca f(2,3) ms f(1,4)]) simp
  then have a: "recv_data hello_server_os = Some (wire (fst (client_main ?cargv hello_client_os)))"
    by (simp add: hello_os_fields)
  have sa: "2 \<le> length ?sargv" "0 < atoi (?sargv ! 1)" "atoi (?sargv ! 1) \<le> 65535"
    by (simp_all add: hello_port)
  have "wire (fst (server_main ?sargv hello_server_os)) = RESPONSE @ [NUL]"
    by (rule server_main_wire [OF sa f(5-9) hello_os_fields(12) _ f(10)]) simp
  then have b: "recv_data hello_client_os = Some (wire (fst (server_main ?sargv hello_server_os)))"
    by (simp add: hello_os_fields)
  show ?thesis
    using a b hello_scenario [OF f a b]
    by (simp add: client_args_def server_args_def hello_os_fields)
qed

section \<open>Port arguments\<close>

text \<open>
  C2, as the code has it. When the port argument has no leading number (white space and a
  sign apart), or its leading number fits an \<open>int\<close> and lies outside 1 to 65535, client and
  server print the message about the invalid port on standard error and exit with status
  1, and that is all they do: no socket call is made. What follows a leading number is
  not looked at. For the client the address argument has at most 28 characters.
\<close>

theorem invalid_port_rejected:
  assumes "3 \<le> length cargv" and "length (cargv ! 1) \<le> 28" and "no_valid_port (cargv ! 2)"
    and "2 \<le> length sargv" and "no_valid_port (sargv ! 1)"
  shows "client_main cargv cenv = ([Stderr (invalid_port_msg (cargv ! 2))], Exit 1)
       \<and> server_main sargv senv = ([Stderr (invalid_port_msg (sargv ! 1))], Exit 1)
       \<and> \<not> list_ex is_socket_call (fst (client_main cargv cenv))
       \<and> \<not> list_ex is_socket_call (fst (server_main sargv senv))"
proof -
  have "client_port cargv \<le> 0 \<or> 65535 < client_port cargv"
    using atoi_no_valid_port [OF assms(3)] by (simp add: client_port_def atoi_def)
  then have c: "client_main cargv cenv = ([Stderr (invalid_port_msg (cargv ! 2))], Exit 1)"
    using assms(1,2) by (auto simp: client_main_def client_parse_arguments_cases)
  have s: "server_main sargv senv = ([Stderr (invalid_port_msg (sargv ! 1))], Exit 1)"
    using assms(4) atoi_no_valid_port [OF assms(5)]
    by (auto simp: server_main_def server_parse_arguments_def run_defs Let_def)
  show ?thesis
    by (simp add: c s)
qed

theorem invalid_port_rejected_witness:
  "no_valid_port ''abc'' \<and> no_valid_port ''70000''
   \<and> client_main [''./client'', ''127.0.0.1'', ''abc''] plain_os
        = ([Stderr (invalid_port_msg ''abc'')], Exit 1)
   \<and> server_main [''./server'', ''70000''] plain_os
        = ([Stderr (invalid_port_msg ''70000'')], Exit 1)"
proof -
  have a: "no_valid_port ([''./client'', ''127.0.0.1'', ''abc''] ! 2)"
    by (simp add: no_valid_port_def decimal_prefix_def isspace_def isdigit_def)
  have b: "no_valid_port ([''./server'', ''70000''] ! 1)"
    by (simp add: no_valid_port_def decimal_prefix_def isspace_def isdigit_def digit_val_def)
  have l: "3 \<le> length [''./client'', ''127.0.0.1'', ''abc'']"
    "length ([''./client'', ''127.0.0.1'', ''abc''] ! 1) \<le> 28"
    "2 \<le> length [''./server'', ''70000'']"
    by simp_all
  show ?thesis
    using a b invalid_port_rejected [OF l(1) l(2) a l(3) b, of plain_os plain_os] by simp
qed

text \<open>
  C2, as the specification has it, fails. The argument \<open>80abc\<close> is no number, yet
  \<open>strtol\<close> and \<open>atoi\<close> read the 80 in front and stop there, and both programs go on
  with port 80.
\<close>

theorem trailing_text_port_accepted:
  "\<not> list_all isdigit ''80abc''
   \<and> snd (client_main [''./client'', ''127.0.0.1'', ''80abc''] plain_os) = Return 0
   \<and> Connect 3 ''127.0.0.1'' 80 0 \<in> set (fst (client_main [''./client'', ''127.0.0.1'', ''80abc''] plain_os))
   \<and> snd (server_main [''./server'', ''80abc''] plain_os) = Return 0
   \<and> Bind 3 80 0 \<in> set (fst (server_main [''./server'', ''80abc''] plain_os))"
proof -
  have p: "client_port [''./client'', ''127.0.0.1'', ''80abc''] = 80" "atoi ''80abc'' = 80"
    by (simp_all add: client_port_def number_defs)
  have e: "stdin_bytes plain_os = ''hello'' @ NL # []" "socket_ret plain_os = 3"
    "connect_ret plain_os = 0" "setsockopt_ret plain_os = 0" "bind_ret plain_os = 0"
    "listen_ret plain_os = 0" "accept_ret plain_os = 4" "recv_data plain_os = Some []"
    "send_ret plain_os = Returns 0"
    by (simp_all add: plain_os_def)
  have c: "snd (client_main [''./client'', ''127.0.0.1'', ''80abc''] plain_os) = Return 0
    \<and> Connect 3 ''127.0.0.1'' 80 0
        \<in> set (fst (client_main [''./client'', ''127.0.0.1'', ''80abc''] plain_os))"
    using client_main_line [where argv = "[''./client'', ''127.0.0.1'', ''80abc'']"
        and env = plain_os and msg = "''hello''" and rest = "[]" and rc = 0]
    by (simp add: p e c_str_def)
  have s: "snd (server_main [''./server'', ''80abc''] plain_os) = Return 0
    \<and> Bind 3 80 0 \<in> set (fst (server_main [''./server'', ''80abc''] plain_os))"
    using server_main_run [where argv = "[''./server'', ''80abc'']" and env = plain_os
        and d = "[]" and rc = 0]
    by (simp add: p e)
  show ?thesis
    using c s by (simp add: isdigit_def)
qed

section \<open>The server's answer\<close>

text \<open>
  C3. When the server's \<open>recv\<close> returns zero (the client connected and closed without
  sending), the server calls \<open>send\<close> not once and ends with status 0.
\<close>

theorem zero_bytes_no_response:
  assumes "recv_returned (fst (server_main argv env)) = Some 0"
  shows "sends (fst (server_main argv env)) = [] \<and> exit_status (snd (server_main argv env)) = Some 0"
  using assms
  by (auto simp: server_defs run_defs Let_def min_def
           split: if_splits option.splits send_result.splits)

theorem zero_bytes_no_response_witness:
  "recv_returned (fst (server_main server_args plain_os)) = Some 0
   \<and> sends (fst (server_main server_args plain_os)) = []
   \<and> exit_status (snd (server_main server_args plain_os)) = Some 0"
proof -
  have h: "recv_returned (fst (server_main server_args plain_os)) = Some 0"
    by (simp add: server_defs run_defs number_defs server_args_def plain_os_def)
  show ?thesis
    using h zero_bytes_no_response [OF h] by simp
qed

text \<open>
  C5. When the server's \<open>recv\<close> returned a positive number, the server calls \<open>send\<close>
  exactly once, on the accepted connection, with the fixed text
  \<open>Server acknowledged your message!\<close> and one terminator: 34 bytes.
\<close>

theorem positive_read_sends_ack:
  assumes "recv_returned (fst (server_main argv env)) = Some rc" and "0 < rc"
  shows "sends (fst (server_main argv env)) = [(accept_ret env, RESPONSE @ [NUL])]
         \<and> RESPONSE = ''Server acknowledged your message!''
         \<and> length (RESPONSE @ [NUL]) = 34"
  using assms
  by (auto simp: server_defs run_defs Let_def RESPONSE_def min_def
           split: if_splits option.splits send_result.splits)

theorem positive_read_sends_ack_witness:
  "recv_returned (fst (server_main server_args (plain_os\<lparr>recv_data := Some ''hi''\<rparr>))) = Some 2
   \<and> sends (fst (server_main server_args (plain_os\<lparr>recv_data := Some ''hi''\<rparr>)))
       = [(4, ''Server acknowledged your message!'' @ [NUL])]"
proof -
  have h: "recv_returned (fst (server_main server_args (plain_os\<lparr>recv_data := Some ''hi''\<rparr>)))
             = Some 2"
    by (simp add: server_defs run_defs number_defs server_args_def plain_os_def)
  have p: "(0::int) < 2" by simp
  show ?thesis
    using h positive_read_sends_ack [OF h p] by (simp add: plain_os_def)
qed

section \<open>The client's exit status\<close>

text \<open>
  C4, as the code has it. A run of the client that has defined behaviour and is not killed
  by a signal inside \<open>send\<close> exits with status 1 when there are fewer than two arguments,
  when the port is not in 1 to 65535, when \<open>socket\<close> fails or when \<open>connect\<close> fails, and
  with status 0 in every other case: also when \<open>send\<close> returns an error, when \<open>recv\<close>
  fails and when the server closes without responding.
\<close>

theorem client_exit_status:
  assumes "snd (client_main argv env) \<noteq> Undefined" and "snd (client_main argv env) \<noteq> Killed"
  shows "exit_status (snd (client_main argv env)) =
           Some (if length argv < 3 \<or> client_port argv \<le> 0 \<or> 65535 < client_port argv
                    \<or> socket_ret env < 0 \<or> connect_ret env < 0
                 then 1 else 0)"
  using client_outcome [OF assms(1)] assms(2) by (simp split: if_splits)

theorem client_exit_status_witness:
  "snd (client_main client_args (plain_os\<lparr>send_ret := Returns (- 1)\<rparr>)) \<noteq> Undefined
   \<and> snd (client_main client_args (plain_os\<lparr>send_ret := Returns (- 1)\<rparr>)) \<noteq> Killed
   \<and> exit_status (snd (client_main client_args (plain_os\<lparr>send_ret := Returns (- 1)\<rparr>)))
        = Some 0
   \<and> snd (client_main client_args (plain_os\<lparr>connect_ret := - 1\<rparr>)) \<noteq> Undefined
   \<and> snd (client_main client_args (plain_os\<lparr>connect_ret := - 1\<rparr>)) \<noteq> Killed
   \<and> exit_status (snd (client_main client_args (plain_os\<lparr>connect_ret := - 1\<rparr>))) = Some 1"
proof -
  have r: "snd (client_main client_args (plain_os\<lparr>send_ret := Returns (- 1)\<rparr>)) = Return 0"
    using client_run_hello [of "plain_os\<lparr>send_ret := Returns (- 1)\<rparr>" "- 1"]
    by (simp add: plain_os_def)
  have h: "snd (client_main client_args (plain_os\<lparr>send_ret := Returns (- 1)\<rparr>)) \<noteq> Undefined"
    "snd (client_main client_args (plain_os\<lparr>send_ret := Returns (- 1)\<rparr>)) \<noteq> Killed"
    by (simp_all add: r)
  have p: "client_port client_args = 9000" "length client_args = 3"
    by (simp_all add: client_args_def hello_port)
  have e: "snd (client_main client_args (plain_os\<lparr>connect_ret := - 1\<rparr>)) = Exit 1"
    by (simp add: client_main_def client_parse_arguments_cases create_client_socket_cases p)
       (simp add: client_args_def plain_os_def)
  have k: "snd (client_main client_args (plain_os\<lparr>connect_ret := - 1\<rparr>)) \<noteq> Undefined"
    "snd (client_main client_args (plain_os\<lparr>connect_ret := - 1\<rparr>)) \<noteq> Killed"
    by (simp_all add: e)
  show ?thesis
    using h k client_exit_status [OF h] client_exit_status [OF k]
    by (simp add: p) (simp add: plain_os_def)
qed

text \<open>
  C4, as the specification has it, fails: when \<open>send\<close> returns an error, when \<open>recv\<close>
  fails and when the server closes without responding, the client reports it and exits
  with status 0.
\<close>

theorem failed_exchange_exit_0:
  "exit_status (snd (client_main client_args (plain_os\<lparr>send_ret := Returns (- 1)\<rparr>))) = Some 0
   \<and> Perror ''Error: send() failed''
        \<in> set (fst (client_main client_args (plain_os\<lparr>send_ret := Returns (- 1)\<rparr>)))
   \<and> exit_status (snd (client_main client_args (plain_os\<lparr>recv_data := None\<rparr>))) = Some 0
   \<and> Perror ''Error: recv() failed''
        \<in> set (fst (client_main client_args (plain_os\<lparr>recv_data := None\<rparr>)))
   \<and> exit_status (snd (client_main client_args plain_os)) = Some 0
   \<and> Stdout (''Server closed the connection without responding.'' @ [NL])
        \<in> set (fst (client_main client_args plain_os))"
proof -
  have 1: "snd (client_main client_args (plain_os\<lparr>send_ret := Returns (- 1)\<rparr>)) = Return 0
   \<and> Perror ''Error: send() failed''
        \<in> set (fst (client_main client_args (plain_os\<lparr>send_ret := Returns (- 1)\<rparr>)))"
    using client_run_hello [of "plain_os\<lparr>send_ret := Returns (- 1)\<rparr>" "- 1"]
    by (simp add: plain_os_def)
  have 2: "snd (client_main client_args (plain_os\<lparr>recv_data := None\<rparr>)) = Return 0
   \<and> Perror ''Error: recv() failed''
        \<in> set (fst (client_main client_args (plain_os\<lparr>recv_data := None\<rparr>)))"
    using client_run_hello [of "plain_os\<lparr>recv_data := None\<rparr>" 0]
      receive_response_fails [of "plain_os\<lparr>recv_data := None\<rparr>" 3]
    by (simp add: plain_os_def)
  have 3: "snd (client_main client_args plain_os) = Return 0
   \<and> Stdout (''Server closed the connection without responding.'' @ [NL])
        \<in> set (fst (client_main client_args plain_os))"
    using client_run_hello [of plain_os 0] receive_response_data [of plain_os "[]" 3]
    by (simp add: plain_os_def)
  show ?thesis
    using 1 2 3 by simp
qed

section \<open>The size of one receive\<close>

text \<open>
  C6, as the code has it. Each side asks \<open>recv\<close> for one byte less than its array holds,
  99 of 100, and so takes at most 99 bytes of payload in one call, terminator included;
  the last byte of the array is kept for the terminator the receiver writes itself.
\<close>

theorem receive_requests_one_less:
  "recv_calls (fst (receive_message sd (uninit BUFFER_SIZE g) (int BUFFER_SIZE) env))
     = [(BUFFER_SIZE - 1,
         case recv_data env of None \<Rightarrow> - 1 | Some d \<Rightarrow> int (min (length d) (BUFFER_SIZE - 1)))]
   \<and> recv_calls (fst (receive_response sd' env'))
     = [(BUFFER_SIZE - 1,
         case recv_data env' of None \<Rightarrow> - 1 | Some d \<Rightarrow> int (min (length d) (BUFFER_SIZE - 1)))]
   \<and> BUFFER_SIZE - 1 = 99"
  by (simp add: BUFFER_SIZE_def receive_message_calls receive_response_calls
        split: option.splits)

text \<open>
  C6, as the specification has it, fails: of a payload of 100 bytes, terminator
  included, one \<open>recv\<close> of either side takes 99, and asks for no more.
\<close>

theorem full_payload_cut_short:
  "length (replicate 99 (CHR ''a'') @ [NUL]) = BUFFER_SIZE
   \<and> recv_calls (fst (receive_message 4 (uninit BUFFER_SIZE (stack_bytes plain_os)) (int BUFFER_SIZE)
        (plain_os\<lparr>recv_data := Some (replicate 99 (CHR ''a'') @ [NUL])\<rparr>))) = [(99, 99)]
   \<and> recv_calls (fst (receive_response 3
        (plain_os\<lparr>recv_data := Some (replicate 99 (CHR ''a'') @ [NUL])\<rparr>))) = [(99, 99)]"
  by (simp add: BUFFER_SIZE_def receive_message_calls receive_response_calls)

section \<open>Descriptors\<close>

text \<open>
  C7, as the code has it. At the end of every run in which the process exits, whether
  \<open>main\<close> returns or an error path calls \<open>exit\<close>, no descriptor that \<open>socket\<close> or
  \<open>accept\<close> returned is left open: each has been closed. That is every run of the server
  in which it is not killed by a signal inside \<open>send\<close>, and every run of the client in
  which it is not killed so and has defined behaviour.
\<close>

theorem opened_sockets_closed:
  "(snd (server_main sargv senv) \<noteq> Killed \<longrightarrow> leaked (fst (server_main sargv senv)) [] = [])
   \<and> (snd (client_main cargv cenv) \<noteq> Killed \<and> snd (client_main cargv cenv) \<noteq> Undefined \<longrightarrow>
        leaked (fst (client_main cargv cenv)) [] = [])"
  using server_no_leak client_no_leak by blast

theorem opened_sockets_closed_witness:
  "snd (server_main server_args hello_server_os) \<noteq> Killed
   \<and> Accept 3 4 \<in> set (fst (server_main server_args hello_server_os))
   \<and> leaked (fst (server_main server_args hello_server_os)) [] = []
   \<and> snd (client_main client_args plain_os) \<noteq> Killed
   \<and> snd (client_main client_args plain_os) \<noteq> Undefined
   \<and> Socket 3 \<in> set (fst (client_main client_args plain_os))
   \<and> leaked (fst (client_main client_args plain_os)) [] = []"
proof -
  have p: "atoi ''9000'' = 9000"
    by (rule hello_port)
  have s: "snd (server_main server_args hello_server_os) = Return 0"
    "Accept 3 4 \<in> set (fst (server_main server_args hello_server_os))"
    using server_main_run [where argv = server_args and env = hello_server_os
        and d = "''hello'' @ [NUL]" and rc = 34]
    by (simp_all add: hello_os_fields server_args_def p)
  have r: "snd (client_main client_args plain_os) = Return 0"
    "Socket 3 \<in> set (fst (client_main client_args plain_os))"
    using client_run_hello [of plain_os 0] by (simp_all add: plain_os_def)
  show ?thesis
    using s r opened_sockets_closed [of server_args hello_server_os client_args plain_os]
    by simp
qed

text \<open>
  C7, as the specification has it, fails. The server has read a message and the client
  a line, and \<open>send\<close> raises \<open>SIGPIPE\<close>: the process is killed inside the call, and the
  descriptors it had opened, 4 and 3 in the server and 3 in the client, were never closed.
\<close>

theorem killed_in_send_leaves_open:
  "snd (server_main server_args (plain_os\<lparr>send_ret := Sigpipe, recv_data := Some ''hi''\<rparr>)) = Killed
   \<and> leaked (fst (server_main server_args
                (plain_os\<lparr>send_ret := Sigpipe, recv_data := Some ''hi''\<rparr>))) [] = [4, 3]
   \<and> snd (client_main client_args (plain_os\<lparr>send_ret := Sigpipe\<rparr>)) = Killed
   \<and> leaked (fst (client_main client_args (plain_os\<lparr>send_ret := Sigpipe\<rparr>))) [] = [3]"
proof -
  have p: "atoi ''9000'' = 9000"
    by (rule hello_port)
  have s: "snd (server_main server_args (plain_os\<lparr>send_ret := Sigpipe, recv_data := Some ''hi''\<rparr>))
             = Killed
   \<and> leaked (fst (server_main server_args
                (plain_os\<lparr>send_ret := Sigpipe, recv_data := Some ''hi''\<rparr>))) [] = [4, 3]"
    using server_main_killed [where argv = server_args
        and env = "plain_os\<lparr>send_ret := Sigpipe, recv_data := Some ''hi''\<rparr>" and d = "''hi''"]
    by (simp add: server_args_def p plain_os_def leaked_append receive_message_leaked)
  have c: "snd (client_main client_args (plain_os\<lparr>send_ret := Sigpipe\<rparr>)) = Killed
   \<and> leaked (fst (client_main client_args (plain_os\<lparr>send_ret := Sigpipe\<rparr>))) [] = [3]"
    using client_killed_hello [of "plain_os\<lparr>send_ret := Sigpipe\<rparr>"]
    by (simp add: plain_os_def)
  show ?thesis
    using s c by simp
qed

section \<open>The received string\<close>

text \<open>
  C9. When \<open>receive_message\<close> returns \<open>rc \<ge> 0\<close>, the caller's array holds a terminated
  string: \<open>rc\<close> is at most \<open>buf_size - 1\<close>, the byte at index \<open>rc\<close> is the terminator
  and so is every byte from there to the end of the \<open>buf_size\<close> bytes. The same holds for
  the array of the client's \<open>receive_response\<close>, with 100 for \<open>buf_size\<close>.
\<close>

theorem receive_buffer_terminated:
  "(receive_message sd buffer buf_size env = (t, Return (rc, b)) \<and> 0 \<le> rc \<longrightarrow>
      rc \<le> buf_size - 1 \<and> nat rc < length b \<and> b ! nat rc = NUL
      \<and> (\<forall>i. nat rc \<le> i \<and> i < nat buf_size \<longrightarrow> b ! i = NUL))
   \<and> (receive_response sd' env' = (t', Return (r', rc', b')) \<and> 0 \<le> rc' \<longrightarrow>
      rc' \<le> 99 \<and> length b' = 100 \<and> b' ! nat rc' = NUL
      \<and> (\<forall>i. nat rc' \<le> i \<and> i < 100 \<longrightarrow> b' ! i = NUL))"
  using receive_message_terminated receive_response_terminated by blast

theorem receive_buffer_terminated_witness:
  "receive_message 4 (uninit 100 (stack_bytes plain_os)) 100 (plain_os\<lparr>recv_data := Some ''hi''\<rparr>)
     = ([Recv 4 99 2, Stdout (''Received 2 bytes'' @ [NL]), Stdout (''Message: hi'' @ [NL])],
        Return (2, ''hi'' @ replicate 98 NUL))
   \<and> (0::int) \<le> 2
   \<and> (''hi'' @ replicate 98 NUL) ! nat 2 = NUL
   \<and> receive_response 3 (plain_os\<lparr>recv_data := Some ''ok''\<rparr>)
     = ([Recv 3 99 2, Stdout (''Server response: ok'' @ [NL])],
        Return (0, 2, ''ok'' @ replicate 98 NUL))
   \<and> (''ok'' @ replicate 98 NUL) ! nat 2 = NUL"
proof -
  have m: "receive_message 4 (uninit 100 (stack_bytes plain_os)) 100
             (plain_os\<lparr>recv_data := Some ''hi''\<rparr>)
     = ([Recv 4 99 2, Stdout (''Received 2 bytes'' @ [NL]), Stdout (''Message: hi'' @ [NL])],
        Return (2, ''hi'' @ replicate 98 NUL))"
    using receive_message_data [of "plain_os\<lparr>recv_data := Some ''hi''\<rparr>" "''hi''" 100
            "uninit 100 (stack_bytes plain_os)" 4]
    by (simp add: show_int_def show_nat.simps c_str_def)
  have r: "receive_response 3 (plain_os\<lparr>recv_data := Some ''ok''\<rparr>)
     = ([Recv 3 99 2, Stdout (''Server response: ok'' @ [NL])],
        Return (0, 2, ''ok'' @ replicate 98 NUL))"
    using receive_response_data [of "plain_os\<lparr>recv_data := Some ''ok''\<rparr>" "''ok''" 3]
    by (simp add: c_str_def)
  show ?thesis
    using m r receive_buffer_terminated [of 4 "uninit 100 (stack_bytes plain_os)" 100
        "plain_os\<lparr>recv_data := Some ''hi''\<rparr>"
        "[Recv 4 99 2, Stdout (''Received 2 bytes'' @ [NL]), Stdout (''Message: hi'' @ [NL])]"
        2 "''hi'' @ replicate 98 NUL"
        3 "plain_os\<lparr>recv_data := Some ''ok''\<rparr>"
        "[Recv 3 99 2, Stdout (''Server response: ok'' @ [NL])]" 0 2 "''ok'' @ replicate 98 NUL"]
    by simp
qed

section \<open>The address argument\<close>

text \<open>
  C10. The client copies its first argument with \<open>strcpy\<close> into an array of 29 bytes.
  With at least two arguments, the copy leaves the array exactly when the address has more
  than 28 characters, and then the run has no defined behaviour; an address of at most
  28 characters is in the array with its terminator, and the array keeps its 29 bytes.
\<close>

theorem address_copy_bound:
  assumes "3 \<le> length argv"
  shows "(snd (client_parse_arguments argv (uninit 29 g)) = Undefined) = (28 < length (argv ! 1))
       \<and> (28 < length (argv ! 1) \<longrightarrow> client_main argv env = ([], Undefined))
       \<and> (length (argv ! 1) \<le> 28 \<longrightarrow> 0 < client_port argv \<longrightarrow> client_port argv \<le> 65535 \<longrightarrow>
            (\<exists>a. client_parse_arguments argv (uninit 29 g) = ([], Return (a, client_port argv))
                 \<and> length a = 29 \<and> take (length (argv ! 1) + 1) a = argv ! 1 @ [NUL]))"
  using assms
  by (auto simp: client_main_def client_parse_arguments_cases)

theorem address_copy_bound_witness:
  "3 \<le> length [''./client'', ''fe80:0000:0000:0000:0202:b3f9'', ''9000'']
   \<and> 28 < length ([''./client'', ''fe80:0000:0000:0000:0202:b3f9'', ''9000''] ! 1)
   \<and> client_main [''./client'', ''fe80:0000:0000:0000:0202:b3f9'', ''9000''] plain_os = ([], Undefined)
   \<and> length ([''./client'', ''fe80:0000:0000:0000:0202:b3f'', ''9000''] ! 1) \<le> 28
   \<and> snd (client_parse_arguments [''./client'', ''fe80:0000:0000:0000:0202:b3f'', ''9000''] (uninit 29 (stack_bytes plain_os)))
       \<noteq> Undefined"
proof -
  have l: "3 \<le> length [''./client'', ''fe80:0000:0000:0000:0202:b3f9'', ''9000'']"
    "3 \<le> length [''./client'', ''fe80:0000:0000:0000:0202:b3f'', ''9000'']"
    by simp_all
  show ?thesis
    using address_copy_bound [OF l(1), of "stack_bytes plain_os" plain_os]
      address_copy_bound [OF l(2), of "stack_bytes plain_os" plain_os]
    by simp
qed

end
